(* ===== verification/Prelude.thy ===== *)
theory Prelude
  imports Main
begin

text \<open>
  Shared vocabulary of the development. Python exceptions the bot can raise are values of
  \<open>py_error\<close>; a failed call to the Telegram platform is an \<open>io_error\<close>: an
  exception of aiogram's \<^verbatim>\<open>TelegramAPIError\<close> hierarchy (which includes its
  \<^verbatim>\<open>NetworkError\<close>, raised for client errors of aiohttp) or an
  \<^verbatim>\<open>asyncio.TimeoutError\<close>, which aiogram does not wrap. \<open>ValidationError\<close> is
  aiogram's exception for a malformed bot token. Handlers of
  \<^verbatim>\<open>src/bot_aiogram.py\<close> are coroutines that read and write the global dictionary
  \<^verbatim>\<open>user_state\<close> and await outbound platform calls; they are modelled in an
  exception-state monad \<open>('s, 'a) exc\<close>: a function from the state to a result
  (\<open>Inl\<close> the raised exception, \<open>Inr\<close> the return value) and the new state. An
  exception does not undo the state changes made before it, as in Python.
  \<open>exc_simps\<close> collects the evaluation rules of the monad, \<open>py_simps\<close> those of the
  Python builtins, \<open>co_simps\<close> the sequential run of the coroutine combinators.
\<close>

named_theorems exc_simps "evaluation rules of the exception-state monad"
named_theorems py_simps "evaluation rules of the modelled Python builtins"
named_theorems co_simps "the sequential run of a coroutine combinator as its monadic counterpart"

type_synonym user_id = int

datatype io_error = TelegramAPIError | TimeoutError

datatype py_error = ValueError | IndexError | Gateway io_error | ValidationError

type_synonym ('s, 'a) exc = "'s \<Rightarrow> (py_error + 'a) \<times> 's"

definition returnE :: "'a \<Rightarrow> ('s, 'a) exc" where
  "returnE x s = (Inr x, s)"

definition raiseE :: "py_error \<Rightarrow> ('s, 'a) exc" where
  "raiseE e s = (Inl e, s)"

definition liftE :: "py_error + 'a \<Rightarrow> ('s, 'a) exc" where
  "liftE r s = (r, s)"

definition bindE :: "('s, 'a) exc \<Rightarrow> ('a \<Rightarrow> ('s, 'b) exc) \<Rightarrow> ('s, 'b) exc" where
  "bindE m f s = (case m s of (Inl e, s') \<Rightarrow> (Inl e, s') | (Inr x, s') \<Rightarrow> f x s')"

definition thenE :: "('s, 'a) exc \<Rightarrow> ('s, 'b) exc \<Rightarrow> ('s, 'b) exc" where
  "thenE m n = bindE m (\<lambda>_. n)"

text \<open>
  \<^verbatim>\<open>try: m except E: h\<close>: \<open>p\<close> says which exceptions the \<^verbatim>\<open>except\<close> clause
  names; the others propagate.
\<close>

definition catchE ::
  "('s, 'a) exc \<Rightarrow> (py_error \<Rightarrow> bool) \<Rightarrow> (py_error \<Rightarrow> ('s, 'a) exc) \<Rightarrow> ('s, 'a) exc" where
  "catchE m p h s = (case m s of (Inl e, s') \<Rightarrow> (if p e then h e s' else (Inl e, s')) | r \<Rightarrow> r)"

definition modifyE :: "('s \<Rightarrow> 's) \<Rightarrow> ('s, unit) exc" where
  "modifyE f s = (Inr (), f s)"

definition getsE :: "('s \<Rightarrow> 'a) \<Rightarrow> ('s, 'a) exc" where
  "getsE f s = (Inr (f s), s)"

lemma io_error_not_api [simp]: "e \<noteq> TelegramAPIError \<longleftrightarrow> e = TimeoutError"
  by (cases e) auto

lemma bindE_returnE [simp, exc_simps]: "bindE (returnE x) f = f x"
  by (simp add: fun_eq_iff bindE_def returnE_def)

lemma bindE_raiseE [simp, exc_simps]: "bindE (raiseE e) f = raiseE e"
  by (simp add: fun_eq_iff bindE_def raiseE_def)

lemma liftE_Inr [simp, exc_simps]: "liftE (Inr x) = returnE x"
  by (simp add: fun_eq_iff liftE_def returnE_def)

lemma liftE_Inl [simp, exc_simps]: "liftE (Inl e) = raiseE e"
  by (simp add: fun_eq_iff liftE_def raiseE_def)

lemma bindE_modifyE [simp, exc_simps]: "bindE (modifyE g) f s = f () (g s)"
  by (simp add: bindE_def modifyE_def)

lemma bindE_getsE [simp, exc_simps]: "bindE (getsE g) f s = f (g s) s"
  by (simp add: bindE_def getsE_def)

lemma bindE_assoc [simp, exc_simps]: "bindE (bindE m f) g = bindE m (\<lambda>x. bindE (f x) g)"
  by (simp add: fun_eq_iff bindE_def split: prod.splits sum.splits)

lemma returnE_apply [simp, exc_simps]: "returnE x s = (Inr x, s)"
  by (simp add: returnE_def)

lemma raiseE_apply [simp, exc_simps]: "raiseE e s = (Inl e, s)"
  by (simp add: raiseE_def)

lemma modifyE_apply [simp, exc_simps]: "modifyE f s = (Inr (), f s)"
  by (simp add: modifyE_def)

lemma getsE_apply [simp, exc_simps]: "getsE f s = (Inr (f s), s)"
  by (simp add: getsE_def)

lemma catchE_apply [exc_simps]:
  "catchE m p h s = (case m s of (Inl e, s') \<Rightarrow> (if p e then h e s' else (Inl e, s')) | r \<Rightarrow> r)"
  by (simp add: catchE_def)

lemmas [simp] = thenE_def

text \<open>The state after a computation that raised nothing before it reached a bind.\<close>

lemma bindE_apply_Inr [exc_simps]:
  "m s = (Inr x, s') \<Longrightarrow> bindE m f s = f x s'"
  by (simp add: bindE_def)

lemma bindE_apply_Inl [exc_simps]:
  "m s = (Inl e, s') \<Longrightarrow> bindE m f s = (Inl e, s')"
  by (simp add: bindE_def)

subsection \<open>Lists\<close>

text \<open>Overwriting an element of a list with one that has a property keeps the property
  of all elements.\<close>

lemma list_all_update_keep: "list_all P xs \<Longrightarrow> P x \<Longrightarrow> list_all P (xs[i := x])"
  by (metis list_all_iff insert_iff set_update_subset_insert subsetD)

end
