(* ===== verification/Py_Builtins.thy ===== *)
theory Py_Builtins
  imports Prelude
begin

text \<open>
  The Python builtins \<^verbatim>\<open>src/bot_aiogram.py\<close> relies on, at the call sites the map
  names: \<^verbatim>\<open>str.split\<close> with an explicit separator and \<^verbatim>\<open>str.startswith\<close> (payload
  decoding, lines 107--141), \<^verbatim>\<open>int()\<close> on a decimal string (lines 110 and 142),
  \<^verbatim>\<open>str()\<close> of an integer inside an f-string (lines 67--68 and 96) and list
  subscription \<^verbatim>\<open>xs[i]\<close> with Python's negative indices (lines 64, 112, 143).
  Strings are byte lists (the UTF-8 encoding Telegram carries); \<^verbatim>\<open>int()\<close> is
  modelled for ASCII input: surrounding ASCII whitespace, an optional sign, decimal
  digits with single underscores between them. The lemmas give the round trip of
  \<^verbatim>\<open>int()\<close> against \<^verbatim>\<open>str()\<close> and what \<^verbatim>\<open>split\<close> does to a payload the
  f-strings wrote, which the payload decoding of \<open>Handlers\<close> uses.
\<close>

subsection \<open>Characters\<close>

definition is_digit :: "char \<Rightarrow> bool" where
  "is_digit c \<longleftrightarrow> 48 \<le> (of_char c :: nat) \<and> (of_char c :: nat) \<le> 57"

definition digit_val :: "char \<Rightarrow> nat" where
  "digit_val c = of_char c - 48"

definition digit_char :: "nat \<Rightarrow> char" where
  "digit_char d = char_of (48 + d)"

text \<open>\<^verbatim>\<open>str.isspace\<close> on ASCII: tab, line feed, vertical tab, form feed, carriage
  return, the four separators 0x1C--0x1F and space.\<close>

definition is_py_space :: "char \<Rightarrow> bool" where
  "is_py_space c \<longleftrightarrow>
     (let n = (of_char c :: nat) in (9 \<le> n \<and> n \<le> 13) \<or> (28 \<le> n \<and> n \<le> 32))"

subsection \<open>\<^verbatim>\<open>str()\<close> of an integer\<close>

fun str_of_nat :: "nat \<Rightarrow> string" where
  "str_of_nat n =
     (if n < 10 then [digit_char n] else str_of_nat (n div 10) @ [digit_char (n mod 10)])"

declare str_of_nat.simps [simp del]

definition str_of_int :: "int \<Rightarrow> string" where
  "str_of_int i = (if i < 0 then CHR ''-'' # str_of_nat (nat (- i)) else str_of_nat (nat i))"

subsection \<open>\<^verbatim>\<open>int()\<close> of a string\<close>

definition strip_ws :: "string \<Rightarrow> string" where
  "strip_ws s = rev (dropWhile is_py_space (rev (dropWhile is_py_space s)))"

text \<open>The digit part of a base-10 literal: \<open>digit (_? digit)*\<close>.\<close>

fun us_digits :: "string \<Rightarrow> bool" where
  "us_digits [] = False"
| "us_digits [d] = is_digit d"
| "us_digits (d # e # rest) =
     (is_digit d \<and> (if e = CHR ''_'' then us_digits rest else us_digits (e # rest)))"

definition digits_value :: "string \<Rightarrow> nat" where
  "digits_value ds = foldl (\<lambda>n c. 10 * n + digit_val c) 0 ds"

definition parse_decimal :: "string \<Rightarrow> py_error + nat" where
  "parse_decimal ds =
     (if us_digits ds then Inr (digits_value (filter (\<lambda>c. c \<noteq> CHR ''_'') ds))
      else Inl ValueError)"

definition py_int :: "string \<Rightarrow> py_error + int" where
  "py_int s =
     (case strip_ws s of
        [] \<Rightarrow> Inl ValueError
      | c # cs \<Rightarrow>
          if c = CHR ''-'' then map_sum id (\<lambda>n. - int n) (parse_decimal cs)
          else if c = CHR ''+'' then map_sum id int (parse_decimal cs)
          else map_sum id int (parse_decimal (c # cs)))"

subsection \<open>\<^verbatim>\<open>str.split(sep)\<close> and \<^verbatim>\<open>str.startswith\<close>\<close>

fun py_split :: "char \<Rightarrow> string \<Rightarrow> string list" where
  "py_split c [] = [[]]"
| "py_split c (x # xs) =
     (let r = py_split c xs in if x = c then [] # r else (x # hd r) # tl r)"

definition starts_with :: "string \<Rightarrow> string \<Rightarrow> bool" where
  "starts_with s p \<longleftrightarrow> take (length p) s = p"

text \<open>Tuple unpacking \<^verbatim>\<open>a, b = xs\<close> and \<^verbatim>\<open>a, b, c = xs\<close>: a list of
  another length raises \<^verbatim>\<open>ValueError\<close>.\<close>

definition unpack2 :: "'a list \<Rightarrow> py_error + ('a \<times> 'a)" where
  "unpack2 xs = (case xs of [a, b] \<Rightarrow> Inr (a, b) | _ \<Rightarrow> Inl ValueError)"

definition unpack3 :: "'a list \<Rightarrow> py_error + ('a \<times> 'a \<times> 'a)" where
  "unpack3 xs = (case xs of [a, b, c] \<Rightarrow> Inr (a, b, c) | _ \<Rightarrow> Inl ValueError)"

subsection \<open>\<^verbatim>\<open>xs[i]\<close>\<close>

definition py_getitem :: "'a list \<Rightarrow> int \<Rightarrow> py_error + 'a" where
  "py_getitem xs i =
     (let k = (if i < 0 then i + int (length xs) else i)
      in if 0 \<le> k \<and> k < int (length xs) then Inr (xs ! nat k) else Inl IndexError)"

subsection \<open>Lemmas\<close>

lemma is_digit_digit_char [simp]: "d < 10 \<Longrightarrow> is_digit (digit_char d)"
  by (simp add: is_digit_def digit_char_def)

lemma digit_val_digit_char [simp]: "d < 10 \<Longrightarrow> digit_val (digit_char d) = d"
  by (simp add: digit_val_def digit_char_def)

lemma digit_not_special [simp]:
  "is_digit c \<Longrightarrow> c \<noteq> CHR ''_''" "is_digit c \<Longrightarrow> c \<noteq> CHR ''-''"
  "is_digit c \<Longrightarrow> c \<noteq> CHR ''+''" "is_digit c \<Longrightarrow> c \<noteq> CHR ''|''"
  "is_digit c \<Longrightarrow> \<not> is_py_space c"
  by (auto simp: is_digit_def is_py_space_def)

lemma str_of_nat_digits: "str_of_nat n \<noteq> [] \<and> (\<forall>c \<in> set (str_of_nat n). is_digit c)"
proof (induction n rule: str_of_nat.induct)
  case (1 n)
  show ?case
  proof (cases "n < 10")
    case True
    then show ?thesis by (simp add: str_of_nat.simps [of n])
  next
    case False
    with "1.IH" show ?thesis by (auto simp: str_of_nat.simps [of n])
  qed
qed

lemma digits_value_snoc [simp]: "digits_value (xs @ [c]) = 10 * digits_value xs + digit_val c"
  by (simp add: digits_value_def)

lemma digits_value_str_of_nat: "digits_value (str_of_nat n) = n"
proof (induction n rule: str_of_nat.induct)
  case (1 n)
  then show ?case
    by (subst str_of_nat.simps) (simp add: digits_value_def)
qed

lemma us_digits_all_digits: "xs \<noteq> [] \<Longrightarrow> \<forall>c \<in> set xs. is_digit c \<Longrightarrow> us_digits xs"
  by (induction xs rule: us_digits.induct) auto

lemma strip_ws_no_space:
  "xs \<noteq> [] \<Longrightarrow> \<not> is_py_space (hd xs) \<Longrightarrow> \<not> is_py_space (last xs) \<Longrightarrow> strip_ws xs = xs"
proof -
  assume ne: "xs \<noteq> []" and h: "\<not> is_py_space (hd xs)" and l: "\<not> is_py_space (last xs)"
  from ne h have "dropWhile is_py_space xs = xs" by (simp add: dropWhile_eq_self_iff)
  moreover from ne l have "dropWhile is_py_space (rev xs) = rev xs"
    by (simp add: dropWhile_eq_self_iff hd_rev)
  ultimately show ?thesis by (simp add: strip_ws_def)
qed

lemma parse_decimal_str_of_nat [py_simps]: "parse_decimal (str_of_nat n) = Inr n"
proof -
  have d: "\<forall>c \<in> set (str_of_nat n). is_digit c" "str_of_nat n \<noteq> []"
    using str_of_nat_digits by blast+
  then have "filter (\<lambda>c. c \<noteq> CHR ''_'') (str_of_nat n) = str_of_nat n"
    by (auto simp: filter_id_conv)
  with d show ?thesis
    by (simp add: parse_decimal_def us_digits_all_digits digits_value_str_of_nat)
qed

lemma strip_ws_str_of_nat [py_simps]: "strip_ws (str_of_nat n) = str_of_nat n"
proof -
  have d: "\<forall>c \<in> set (str_of_nat n). is_digit c" "str_of_nat n \<noteq> []"
    using str_of_nat_digits by blast+
  then show ?thesis by (intro strip_ws_no_space) auto
qed

text \<open>Round trip: \<^verbatim>\<open>int(str(n)) == n\<close> for every Python integer.\<close>

lemma py_int_str_of_nat [py_simps]: "py_int (str_of_nat n) = Inr (int n)"
proof -
  obtain c cs where cs: "str_of_nat n = c # cs" and "is_digit c"
    using str_of_nat_digits [of n] by (cases "str_of_nat n") auto
  then show ?thesis
    using parse_decimal_str_of_nat [of n] strip_ws_str_of_nat [of n]
    by (simp add: py_int_def)
qed

lemma py_int_str_of_int: "py_int (str_of_int i) = Inr i"
proof (cases "i < 0")
  case True
  have d: "\<forall>c \<in> set (str_of_nat (nat (- i))). is_digit c" "str_of_nat (nat (- i)) \<noteq> []"
    using str_of_nat_digits by blast+
  then have "is_digit (last (str_of_nat (nat (- i))))" by simp
  then have "strip_ws (CHR ''-'' # str_of_nat (nat (- i))) = CHR ''-'' # str_of_nat (nat (- i))"
    using d(2) by (intro strip_ws_no_space) (simp_all add: is_py_space_def [of "CHR ''-''"])
  with True show ?thesis
    by (simp add: py_int_def str_of_int_def parse_decimal_str_of_nat)
next
  case False
  then show ?thesis by (simp add: str_of_int_def py_int_str_of_nat)
qed

lemma str_of_int_zero [simp]: "str_of_int 0 = ''0''"
  by code_simp

lemma py_split_nonempty [simp]: "py_split c s \<noteq> []"
  by (induction s) (auto simp: Let_def)

lemma py_split_append_sep:
  "c \<notin> set w \<Longrightarrow> py_split c (w @ c # s) = w # py_split c s"
  by (induction w) (auto simp: Let_def)

lemma py_split_no_sep: "c \<notin> set w \<Longrightarrow> py_split c w = [w]"
  by (induction w) (auto simp: Let_def)

lemma py_getitem_nat [py_simps]: "n < length xs \<Longrightarrow> py_getitem xs (int n) = Inr (xs ! n)"
  by (simp add: py_getitem_def)

lemma py_getitem_neg:
  "0 < n \<Longrightarrow> n \<le> length xs \<Longrightarrow> py_getitem xs (- int n) = Inr (xs ! (length xs - n))"
  by (simp add: py_getitem_def nat_diff_distrib)

lemma py_getitem_error:
  "py_getitem xs i = Inl e \<longleftrightarrow> e = IndexError \<and> (i < - int (length xs) \<or> int (length xs) \<le> i)"
  by (auto simp: py_getitem_def Let_def)

lemma unpack2_simps [simp, py_simps]: "unpack2 [a, b] = Inr (a, b)"
  by (simp add: unpack2_def)

lemma unpack3_simps [simp, py_simps]: "unpack3 [a, b, c] = Inr (a, b, c)"
  by (simp add: unpack3_def)

lemma starts_with_split: "starts_with s p \<longleftrightarrow> (\<exists>t. s = p @ t)"
  by (metis append_eq_conv_conj starts_with_def)

lemma starts_with_append [py_simps]: "starts_with (p @ s) p"
  by (simp add: starts_with_def)

end
