(* ===== verification/Question_Bank.thy ===== *)
theory Question_Bank
  imports Py_Builtins
begin

text \<open>
  The Question Bank of \<^verbatim>\<open>src/bot_aiogram.py\<close>: the constant list \<^verbatim>\<open>QUESTIONS\<close>
  (lines 36--61), whose dictionaries become records with the source's keys as fields, and
  \<^verbatim>\<open>question_kb\<close> (lines 63--70), which builds the inline keyboard of a question.
  aiogram's \<^verbatim>\<open>InlineKeyboardMarkup\<close> is a list of rows; \<^verbatim>\<open>add\<close> with one
  button appends a row holding it. Every button carries its callback payload,
  \<^verbatim>\<open>answer|qidx|i\<close>, \<^verbatim>\<open>hint|qidx\<close> or \<^verbatim>\<open>quit\<close>, written by the f-strings of
  lines 67--69 (\<open>answer_data\<close>, \<open>hint_data\<close>). The lemmas describe the keyboard
  row by row and bound the size of its payloads.
\<close>

record question =
  q :: string
  choices :: "string list"
  answer_index :: int
  hint :: string

definition QUESTIONS :: "question list" where
  "QUESTIONS = [
     \<lparr>q = ''A static radio hums a number: 77. What do you do?'',
      choices = [''Ignore it'', ''Tune to frequency 77.7'', ''Smash the radio'', ''Record it''],
      answer_index = 1,
      hint = ''Some frequencies like to repeat...''\<rparr>,
     \<lparr>q = ''Three doors: one marked with a triangle, one with a circle, one with a square. Which opens?'',
      choices = [''Triangle'', ''Circle'', ''Square''],
      answer_index = 2,
      hint = ''Think about corners vs curves.''\<rparr>,
     \<lparr>q = ''A whisper says: 'Reverse 1223 then add 1'. What is the result?'',
      choices = [''3222'', ''3224'', ''3223'', ''1233''],
      answer_index = 1,
      hint = ''Reverse first, then math.''\<rparr>,
     \<lparr>q = ''You find a torn map with three X's. Which X glows faintly?'',
      choices = [''Top-left'', ''Center'', ''Bottom-right''],
      answer_index = 2,
      hint = ''When in doubt, follow the corner.''\<rparr>]"

datatype button = InlineKeyboardButton (btn_text: string) (callback_data: string)

type_synonym keyboard = "button list list"

definition kb_add :: "keyboard \<Rightarrow> button \<Rightarrow> keyboard" where
  "kb_add kb b = kb @ [[b]]"

definition answer_data :: "int \<Rightarrow> nat \<Rightarrow> string" where
  "answer_data qidx i = ''answer|'' @ str_of_int qidx @ ''|'' @ str_of_nat i"

definition hint_data :: "int \<Rightarrow> string" where
  "hint_data qidx = ''hint|'' @ str_of_int qidx"

text \<open>The loop \<^verbatim>\<open>for i, choice in enumerate(q["choices"])\<close> of line 66.\<close>

fun choice_rows :: "keyboard \<Rightarrow> int \<Rightarrow> nat \<Rightarrow> string list \<Rightarrow> keyboard" where
  "choice_rows kb qidx i [] = kb"
| "choice_rows kb qidx i (choice # cs) =
     choice_rows (kb_add kb (InlineKeyboardButton choice (answer_data qidx i))) qidx (Suc i) cs"

definition question_kb :: "int \<Rightarrow> py_error + keyboard" where
  "question_kb qidx =
     (case py_getitem QUESTIONS qidx of
        Inl e \<Rightarrow> Inl e
      | Inr qu \<Rightarrow>
          (let keyboard = choice_rows [] qidx 0 (choices qu);
               keyboard = kb_add keyboard (InlineKeyboardButton ''Get Hint'' (hint_data qidx));
               keyboard = kb_add keyboard (InlineKeyboardButton ''Quit Game'' ''quit'')
           in Inr keyboard))"

lemma length_QUESTIONS [simp]: "length QUESTIONS = 4"
  by (simp add: QUESTIONS_def)

subsection \<open>The keyboard\<close>

lemma choice_rows_eq:
  "choice_rows kb qidx i cs =
     kb @ map (\<lambda>(k, c). [InlineKeyboardButton c (answer_data qidx k)]) (zip [i..<i + length cs] cs)"
proof (induction kb qidx i cs rule: choice_rows.induct)
  case (1 kb qidx i)
  then show ?case by simp
next
  case (2 kb qidx i choice cs)
  have "[i..<i + length (choice # cs)] = i # [Suc i..<Suc i + length cs]"
    by (simp add: upt_rec)
  with "2.IH" show ?case by (simp add: kb_add_def del: upt_Suc)
qed

lemma question_kb_valid:
  "n < length QUESTIONS \<Longrightarrow>
   question_kb (int n) =
     Inr (map (\<lambda>(k, c). [InlineKeyboardButton c (answer_data (int n) k)])
            (zip [0..<length (choices (QUESTIONS ! n))] (choices (QUESTIONS ! n)))
          @ [[InlineKeyboardButton ''Get Hint'' (hint_data (int n))],
             [InlineKeyboardButton ''Quit Game'' ''quit'']])"
  by (simp add: question_kb_def py_getitem_nat choice_rows_eq kb_add_def Let_def)

lemma question_kb_error:
  "question_kb qidx = Inl e \<longleftrightarrow> py_getitem QUESTIONS qidx = Inl e"
  by (auto simp: question_kb_def Let_def split: sum.splits)

subsection \<open>The size of the payloads\<close>

lemma question_kb_range: "question_kb qidx = Inr kb \<Longrightarrow> - 4 \<le> qidx \<and> qidx \<le> 3"
proof (rule ccontr)
  assume "question_kb qidx = Inr kb" "\<not> (- 4 \<le> qidx \<and> qidx \<le> 3)"
  then have "py_getitem QUESTIONS qidx = Inl IndexError" by (auto simp: py_getitem_error)
  with \<open>question_kb qidx = Inr kb\<close> show False by (simp add: question_kb_def)
qed

lemma question_kb_payloads:
  "- 4 \<le> k \<Longrightarrow> k \<le> 3 \<Longrightarrow>
   (case question_kb k of
      Inl _ \<Rightarrow> True
    | Inr kb \<Rightarrow> list_all (list_all (\<lambda>b. 1 \<le> length (callback_data b) \<and> length (callback_data b) \<le> 64)) kb)"
proof -
  assume "- 4 \<le> k" "k \<le> 3"
  then have "k = - 4 \<or> k = - 3 \<or> k = - 2 \<or> k = - 1 \<or> k = 0 \<or> k = 1 \<or> k = 2 \<or> k = 3" by arith
  then show ?thesis by (elim disjE; hypsubst; code_simp)
qed

text \<open>C22 (bounds): every button of a keyboard \<^verbatim>\<open>question_kb\<close> builds carries a payload
  of 1 to 64 bytes, the sizes Telegram accepts for \<^verbatim>\<open>callback_data\<close> (the longest,
  \<^verbatim>\<open>answer|-4|3\<close>, has 11).\<close>

theorem question_kb_payload_size:
  assumes "question_kb qidx = Inr kb" "row \<in> set kb" "b \<in> set row"
  shows "1 \<le> length (callback_data b) \<and> length (callback_data b) \<le> 64"
  using question_kb_payloads [of qidx] question_kb_range [OF assms(1)] assms
  by (simp add: list_all_iff)

theorem question_kb_payload_size_witness:
  "question_kb (- 4) = Inr [[InlineKeyboardButton ''Ignore it'' ''answer|-4|0''],
     [InlineKeyboardButton ''Tune to frequency 77.7'' ''answer|-4|1''],
     [InlineKeyboardButton ''Smash the radio'' ''answer|-4|2''],
     [InlineKeyboardButton ''Record it'' ''answer|-4|3''],
     [InlineKeyboardButton ''Get Hint'' ''hint|-4''], [InlineKeyboardButton ''Quit Game'' ''quit'']] \<and>
   length (callback_data (InlineKeyboardButton ''Record it'' ''answer|-4|3'')) \<le> 64"
proof -
  have h: "question_kb (- 4) = Inr [[InlineKeyboardButton ''Ignore it'' ''answer|-4|0''],
     [InlineKeyboardButton ''Tune to frequency 77.7'' ''answer|-4|1''],
     [InlineKeyboardButton ''Smash the radio'' ''answer|-4|2''],
     [InlineKeyboardButton ''Record it'' ''answer|-4|3''],
     [InlineKeyboardButton ''Get Hint'' ''hint|-4''], [InlineKeyboardButton ''Quit Game'' ''quit'']]"
    by code_simp
  have r: "[InlineKeyboardButton ''Record it'' ''answer|-4|3''] \<in> set [[InlineKeyboardButton ''Ignore it'' ''answer|-4|0''],
     [InlineKeyboardButton ''Tune to frequency 77.7'' ''answer|-4|1''],
     [InlineKeyboardButton ''Smash the radio'' ''answer|-4|2''],
     [InlineKeyboardButton ''Record it'' ''answer|-4|3''],
     [InlineKeyboardButton ''Get Hint'' ''hint|-4''], [InlineKeyboardButton ''Quit Game'' ''quit'']]"
    and b: "InlineKeyboardButton ''Record it'' ''answer|-4|3'' \<in> set [InlineKeyboardButton ''Record it'' ''answer|-4|3'']"
    by simp_all
  show ?thesis using question_kb_payload_size [OF h r b] h by simp
qed

end
