(* ===== verification/Session_Store.thy ===== *)
theory Session_Store
  imports Prelude
begin

text \<open>
  The Session Store: the module-level dictionary \<^verbatim>\<open>user_state\<close> of
  \<^verbatim>\<open>src/bot_aiogram.py\<close> (line 34), from a user id to a dictionary with the keys
  \<^verbatim>\<open>score\<close> and \<^verbatim>\<open>qidx\<close>. The inner dictionary is the record \<open>session\<close>; its
  \<open>qidx\<close> is \<open>None\<close> where the code stores Python's \<^verbatim>\<open>None\<close> (line 113). The
  dictionary operations the handlers use are \<open>dict_get\<close> (\<^verbatim>\<open>dict.get\<close> with a
  default, line 95), \<open>setdefault\<close> (line 113), item assignment (line 88) and
  \<open>dict_del\<close> (lines 102, 135). A handler that mutates the inner dictionary it obtained
  from \<^verbatim>\<open>setdefault\<close> mutates the entry of the store: \<open>update_session\<close> writes
  through the key, which is faithful because no handler replaces the entry between taking
  the reference and writing through it (both happen before its first \<^verbatim>\<open>await\<close>).
\<close>

record session =
  score :: int
  qidx :: "nat option"

type_synonym store = "user_id \<Rightarrow> session option"

definition dict_get :: "store \<Rightarrow> user_id \<Rightarrow> session \<Rightarrow> session" where
  "dict_get us user d = (case us user of None \<Rightarrow> d | Some st \<Rightarrow> st)"

definition setdefault :: "store \<Rightarrow> user_id \<Rightarrow> session \<Rightarrow> store \<times> session" where
  "setdefault us user d = (case us user of None \<Rightarrow> (us(user \<mapsto> d), d) | Some st \<Rightarrow> (us, st))"

definition dict_del :: "store \<Rightarrow> user_id \<Rightarrow> store" where
  "dict_del us user = us(user := None)"

definition update_session :: "store \<Rightarrow> user_id \<Rightarrow> (session \<Rightarrow> session) \<Rightarrow> store" where
  "update_session us user f = (case us user of None \<Rightarrow> us | Some st \<Rightarrow> us(user \<mapsto> f st))"

subsection \<open>Lemmas\<close>

lemma session_update_both [simp]: "st\<lparr>score := a, qidx := b\<rparr> = \<lparr>score = a, qidx = b\<rparr>"
  by (cases st) simp

lemma setdefault_present [simp]: "fst (setdefault us user d) user \<noteq> None"
  by (simp add: setdefault_def split: option.splits)

lemma setdefault_other [simp]: "u \<noteq> user \<Longrightarrow> fst (setdefault us user d) u = us u"
  by (simp add: setdefault_def split: option.splits)

lemma update_session_other [simp]: "u \<noteq> user \<Longrightarrow> update_session us user f u = us u"
  by (simp add: update_session_def split: option.splits)

lemma update_session_same [simp]:
  "update_session us user f user = map_option f (us user)"
  by (simp add: update_session_def split: option.splits)

lemma dom_update_session [simp]: "dom (update_session us user f) = dom us"
  by (auto simp: update_session_def split: option.splits)

lemma dom_setdefault [simp]: "dom (fst (setdefault us user d)) = insert user (dom us)"
  by (auto simp: setdefault_def split: option.splits)

end
