(* ===== verification/Gateway.thy ===== *)
theory Gateway
  imports Question_Bank Session_Store
begin

text \<open>
  The interface between the handlers and the Gateway Adapter (aiogram and the Telegram
  platform, not part of the repository). An outbound request is one of the platform
  calls \<^verbatim>\<open>src/bot_aiogram.py\<close> awaits: \<^verbatim>\<open>message.reply\<close> and
  \<^verbatim>\<open>call.message.reply\<close> (\<open>Reply\<close>), \<^verbatim>\<open>call.answer(text, show_alert)\<close>
  (\<open>Answer_callback\<close>), \<^verbatim>\<open>call.message.edit_text\<close> (\<open>Edit_text\<close>, without a
  keyboard when no \<^verbatim>\<open>reply_markup\<close> is passed) and the two description setters of
  \<^verbatim>\<open>set_bot_texts\<close>. The state a handler runs on, \<open>hstate\<close>, holds the session
  store, the requests made so far with their outcomes, the log, and \<open>outcomes\<close>: what
  the platform will answer to the next requests (\<open>None\<close> for success; a request beyond
  the list succeeds). \<open>await_call\<close> performs one request: it records it and raises
  \<open>Gateway e\<close> when the platform fails it. The platform's behaviour is thus an input
  of every run, chosen by the environment.
\<close>

datatype outbound =
    Reply string "keyboard option"
  | Answer_callback string bool
  | Edit_text string "keyboard option"
  | Set_my_short_description string
  | Set_my_description string

datatype log_entry = Log_info string | Log_warning string "io_error option"

record hstate =
  user_state :: store
  sent :: "(outbound \<times> io_error option) list"
  outcomes :: "io_error option list"
  log :: "log_entry list"

definition await_call :: "outbound \<Rightarrow> (hstate, unit) exc" where
  "await_call req s =
     (let res = (case outcomes s of [] \<Rightarrow> None | r # _ \<Rightarrow> r);
          s' = s\<lparr>sent := sent s @ [(req, res)], outcomes := drop 1 (outcomes s)\<rparr>
      in (case res of None \<Rightarrow> (Inr (), s') | Some e \<Rightarrow> (Inl (Gateway e), s')))"

definition log_append :: "log_entry \<Rightarrow> (hstate, unit) exc" where
  "log_append entry = modifyE (\<lambda>s. s\<lparr>log := log s @ [entry]\<rparr>)"

subsection \<open>Computations that only talk to the platform\<close>

text \<open>\<open>io_only m\<close>: \<open>m\<close> never changes the session store, whatever the platform
  answers. The rules below let \<open>io_only\<close> be proved by following the structure of a
  handler's code.\<close>

definition io_only :: "(hstate, 'a) exc \<Rightarrow> bool" where
  "io_only m \<longleftrightarrow> (\<forall>s. user_state (snd (m s)) = user_state s)"

named_theorems io_only_intros "rules that build io_only facts"

lemma io_only_returnE [io_only_intros]: "io_only (returnE x)"
  by (simp add: io_only_def)

lemma io_only_raiseE [io_only_intros]: "io_only (raiseE e)"
  by (simp add: io_only_def)

lemma io_only_liftE [io_only_intros]: "io_only (liftE r)"
  by (simp add: io_only_def liftE_def)

lemma io_only_bindE [io_only_intros]:
  "io_only m \<Longrightarrow> (\<And>x. io_only (f x)) \<Longrightarrow> io_only (bindE m f)"
  unfolding io_only_def
proof (intro allI)
  fix s
  assume m: "\<forall>s. user_state (snd (m s)) = user_state s"
    and f: "\<And>x. \<forall>s. user_state (snd (f x s)) = user_state s"
  obtain r s' where ms: "m s = (r, s')" by (cases "m s")
  with m have "user_state s' = user_state s" by (metis snd_conv)
  with f ms show "user_state (snd (bindE m f s)) = user_state s"
    by (cases r) (simp_all add: bindE_def)
qed

lemma io_only_thenE [io_only_intros]: "io_only m \<Longrightarrow> io_only n \<Longrightarrow> io_only (thenE m n)"
  by (simp add: io_only_bindE)

lemma io_only_catchE [io_only_intros]:
  "io_only m \<Longrightarrow> (\<And>e. io_only (h e)) \<Longrightarrow> io_only (catchE m p h)"
  unfolding io_only_def
proof (intro allI)
  fix s
  assume m: "\<forall>s. user_state (snd (m s)) = user_state s"
    and h: "\<And>e. \<forall>s. user_state (snd (h e s)) = user_state s"
  obtain r s' where ms: "m s = (r, s')" by (cases "m s")
  with m have "user_state s' = user_state s" by (metis snd_conv)
  with h ms show "user_state (snd (catchE m p h s)) = user_state s"
    by (cases r) (simp_all add: catchE_def)
qed

lemma io_only_if [io_only_intros]: "io_only m \<Longrightarrow> io_only n \<Longrightarrow> io_only (if b then m else n)"
  by simp

lemma io_only_split [io_only_intros]: "(\<And>a b. io_only (f a b)) \<Longrightarrow> io_only (case_prod f p)"
  by (cases p) simp

lemma io_only_await_call [io_only_intros]: "io_only (await_call req)"
  by (simp add: io_only_def await_call_def Let_def split: option.splits)

lemma io_only_log_append [io_only_intros]: "io_only (log_append entry)"
  by (simp add: io_only_def log_append_def)

lemma io_only_apply: "io_only m \<Longrightarrow> user_state (snd (m s)) = user_state s"
  by (simp add: io_only_def)

lemma await_call_user_state [simp]: "user_state (snd (await_call req s)) = user_state s"
  by (simp add: await_call_def Let_def split: option.splits)

lemma await_call_ok [simp]:
  "outcomes s = [] \<Longrightarrow> await_call req s = (Inr (), s\<lparr>sent := sent s @ [(req, None)]\<rparr>)"
  by (simp add: await_call_def)

lemma await_call_outcome:
  "outcomes s = r # rs \<Longrightarrow>
   await_call req s =
     (case r of None \<Rightarrow> Inr () | Some e \<Rightarrow> Inl (Gateway e),
      s\<lparr>sent := sent s @ [(req, r)], outcomes := rs\<rparr>)"
  by (simp add: await_call_def split: option.splits)

lemma await_call_error: "fst (await_call req s) = Inl e \<Longrightarrow> \<exists>io. e = Gateway io"
  by (auto simp: await_call_def Let_def split: option.splits list.splits)

end
