(* ===== verification/Handlers.thy ===== *)
theory Handlers
  imports Gateway
begin

text \<open>
  The command and callback handlers of \<^verbatim>\<open>src/bot_aiogram.py\<close>, one definition per
  coroutine, statement by statement: \<open>cmd_start\<close> (lines 72--82), \<open>cmd_play\<close>
  (84--90), \<open>cmd_score\<close> (92--96), \<open>cmd_quit\<close> (98--105), \<open>process_answer\<close>
  (107--129), \<open>process_quit\<close> (131--137), \<open>process_hint\<close> (139--144), and the
  startup code: \<open>set_bot_texts\<close> (146--152), \<open>on_startup\<close> (154--156) and the
  token check of lines 18--21. The value \<^verbatim>\<open>random.randrange(len(QUESTIONS))\<close>
  returned is a parameter of the handler that draws it (its contract, a value below
  \<open>length QUESTIONS\<close>, is a hypothesis of the lemmas that need it). Texts are the
  source's literals as UTF-8 bytes. The payload decoding of lines 109--110 and 141--142
  is factored out as \<open>decode_answer\<close> and \<open>decode_hint\<close>; the handlers call them
  where the source has those lines.
\<close>

subsection \<open>Texts\<close>

definition nl :: string where "nl = [CHR 0x0A]"

definition EMDASH :: string where "EMDASH = [CHR 0xE2, CHR 0x80, CHR 0x94]"

definition EYE :: string where
  "EYE = [CHR 0xF0, CHR 0x9F, CHR 0x91, CHR 0x81, CHR 0xEF, CHR 0xB8, CHR 0x8F]"

definition JOYSTICK :: string where
  "JOYSTICK = [CHR 0xF0, CHR 0x9F, CHR 0x95, CHR 0xB9, CHR 0xEF, CHR 0xB8, CHR 0x8F]"

definition TROPHY :: string where "TROPHY = [CHR 0xF0, CHR 0x9F, CHR 0x8F, CHR 0x86]"

definition CANDLE :: string where
  "CANDLE = [CHR 0xF0, CHR 0x9F, CHR 0x95, CHR 0xAF, CHR 0xEF, CHR 0xB8, CHR 0x8F]"

definition CHECK_MARK :: string where "CHECK_MARK = [CHR 0xE2, CHR 0x9C, CHR 0x85]"

definition CROSS_MARK :: string where "CROSS_MARK = [CHR 0xE2, CHR 0x9D, CHR 0x8C]"

definition BULB :: string where "BULB = [CHR 0xF0, CHR 0x9F, CHR 0x92, CHR 0xA1]"

definition GAME_PAD :: string where "GAME_PAD = [CHR 0xF0, CHR 0x9F, CHR 0x8E, CHR 0xAE]"

definition SHORT_DESC :: string where
  "SHORT_DESC = ''Step into the Upside Down. '' @ GAME_PAD @
     '' Face the strange, solve the mystery, and survive the night with Strange Things Bot.''"

definition LONG_DESC :: string where
  "LONG_DESC = ''Welcome to Strange Things Bot '' @ EMDASH @
     '' solve eerie puzzles, unlock clues, and uncover the secrets of Hawkins. '' @
     ''Use /play to start the spooky quiz. Good luck...''"

definition welcome_txt :: string where
  "welcome_txt = EYE @ '' Welcome to Strange Things Bot '' @ EMDASH @ '' the Upside Down quiz.'' @
     nl @ nl @ ''Commands:'' @ nl @
     ''/play - Start a spooky round'' @ nl @
     ''/score - Show your score'' @ nl @
     ''/quit - Quit the current game'' @ nl @ nl @
     ''Be brave. Or be gone.''"

definition next_txt :: "string \<Rightarrow> question \<Rightarrow> string" where
  "next_txt text nq = text @ nl @ nl @ ''Next: '' @ q nq"

subsection \<open>Payload decoding\<close>

text \<open>\<^verbatim>\<open>_, qidx_s, choice_s = call.data.split("|")\<close>;
  \<^verbatim>\<open>qidx = int(qidx_s); choice = int(choice_s)\<close>.\<close>

definition decode_answer :: "string \<Rightarrow> py_error + int \<times> int" where
  "decode_answer data =
     (case unpack3 (py_split CHR ''|'' data) of
        Inl e \<Rightarrow> Inl e
      | Inr (_, qidx_s, choice_s) \<Rightarrow>
          (case py_int qidx_s of
             Inl e \<Rightarrow> Inl e
           | Inr qidx_v \<Rightarrow>
               (case py_int choice_s of
                  Inl e \<Rightarrow> Inl e
                | Inr choice \<Rightarrow> Inr (qidx_v, choice))))"

text \<open>\<^verbatim>\<open>_, qidx_s = call.data.split("|"); qidx = int(qidx_s)\<close>.\<close>

definition decode_hint :: "string \<Rightarrow> py_error + int" where
  "decode_hint data =
     (case unpack2 (py_split CHR ''|'' data) of
        Inl e \<Rightarrow> Inl e
      | Inr (_, qidx_s) \<Rightarrow> py_int qidx_s)"

subsection \<open>Command handlers\<close>

definition cmd_start :: "(hstate, unit) exc" where
  "cmd_start = await_call (Reply welcome_txt None)"

definition cmd_play :: "user_id \<Rightarrow> nat \<Rightarrow> (hstate, unit) exc" where
  "cmd_play user qidx_r =
     thenE (modifyE (\<lambda>s. s\<lparr>user_state := (user_state s)(user \<mapsto> \<lparr>score = 0, qidx = Some qidx_r\<rparr>)\<rparr>))
      (bindE (liftE (py_getitem QUESTIONS (int qidx_r))) (\<lambda>qu.
       bindE (liftE (question_kb (int qidx_r))) (\<lambda>kb.
       await_call (Reply (JOYSTICK @ CHR '' '' # q qu) (Some kb)))))"

text \<open>\<^verbatim>\<open>user_state.get(user, {"score": 0})\<close>: the default has no \<^verbatim>\<open>qidx\<close> key,
  which no reader looks at; it is \<open>None\<close> here.\<close>

definition cmd_score :: "user_id \<Rightarrow> (hstate, unit) exc" where
  "cmd_score user =
     bindE (getsE (\<lambda>s. dict_get (user_state s) user \<lparr>score = 0, qidx = None\<rparr>)) (\<lambda>st.
     await_call (Reply (TROPHY @ '' Your score: '' @ str_of_int (score st)) None))"

definition cmd_quit :: "user_id \<Rightarrow> (hstate, unit) exc" where
  "cmd_quit user =
     bindE (getsE (\<lambda>s. user \<in> dom (user_state s))) (\<lambda>present.
       if present then
         thenE (modifyE (\<lambda>s. s\<lparr>user_state := dict_del (user_state s) user\<rparr>))
           (await_call (Reply (CANDLE @ '' You have left the game. Come back if you dare.'') None))
       else await_call (Reply ''No active game. Use /play to begin.'' None))"

subsection \<open>Callback handlers\<close>

text \<open>The \<^verbatim>\<open>try\<close> block of lines 124--129: acknowledge, then edit the question
  message in place; any exception falls back to a new message.\<close>

definition answer_feedback :: "string \<Rightarrow> nat \<Rightarrow> (hstate, unit) exc" where
  "answer_feedback text next_qidx =
     catchE
       (thenE (await_call (Answer_callback text True))
         (bindE (liftE (py_getitem QUESTIONS (int next_qidx))) (\<lambda>nq.
          bindE (liftE (question_kb (int next_qidx))) (\<lambda>kb.
          await_call (Edit_text (next_txt text nq) (Some kb))))))
       (\<lambda>_. True)
       (\<lambda>_. bindE (liftE (py_getitem QUESTIONS (int next_qidx))) (\<lambda>nq.
            bindE (liftE (question_kb (int next_qidx))) (\<lambda>kb.
            await_call (Reply (next_txt text nq) (Some kb)))))"

definition process_answer :: "user_id \<Rightarrow> string \<Rightarrow> nat \<Rightarrow> (hstate, unit) exc" where
  "process_answer user data next_qidx =
     bindE (liftE (decode_answer data)) (\<lambda>(qidx_v, choice).
     bindE (liftE (py_getitem QUESTIONS qidx_v)) (\<lambda>qu.
     thenE (modifyE (\<lambda>s. s\<lparr>user_state :=
              fst (setdefault (user_state s) user \<lparr>score = 0, qidx = None\<rparr>)\<rparr>))
     (let correct = (choice = answer_index qu) in
      bindE
        (if correct then
           thenE (modifyE (\<lambda>s. s\<lparr>user_state :=
                    update_session (user_state s) user (\<lambda>st. st\<lparr>score := score st + 10\<rparr>)\<rparr>))
             (returnE (CHECK_MARK @ '' Correct! +10 points.''))
         else
           thenE (modifyE (\<lambda>s. s\<lparr>user_state :=
                    update_session (user_state s) user (\<lambda>st. st\<lparr>score := score st - 5\<rparr>)\<rparr>))
             (returnE (CROSS_MARK @ '' Wrong. -5 points. Hint: '' @ hint qu)))
        (\<lambda>text.
         thenE (modifyE (\<lambda>s. s\<lparr>user_state :=
                  update_session (user_state s) user (\<lambda>st. st\<lparr>qidx := Some next_qidx\<rparr>)\<rparr>))
           (answer_feedback text next_qidx)))))"

definition process_quit :: "user_id \<Rightarrow> (hstate, unit) exc" where
  "process_quit user =
     thenE (modifyE (\<lambda>s. if user \<in> dom (user_state s)
                         then s\<lparr>user_state := dict_del (user_state s) user\<rparr> else s))
      (thenE (await_call (Answer_callback ''Game ended. Goodbye.'' True))
        (await_call (Edit_text (CANDLE @ '' Game ended. Use /play to start again.'') None)))"

definition process_hint :: "string \<Rightarrow> (hstate, unit) exc" where
  "process_hint data =
     bindE (liftE (decode_hint data)) (\<lambda>qidx_v.
     bindE (liftE (py_getitem QUESTIONS qidx_v)) (\<lambda>qu.
     await_call (Answer_callback (BULB @ '' Hint: '' @ hint qu) True)))"

subsection \<open>Startup\<close>

text \<open>\<^verbatim>\<open>except TelegramAPIError\<close> catches aiogram's API errors only.\<close>

definition set_bot_texts :: "(hstate, unit) exc" where
  "set_bot_texts =
     catchE
       (thenE (await_call (Set_my_short_description SHORT_DESC))
         (thenE (await_call (Set_my_description LONG_DESC))
           (log_append (Log_info ''Set short and long descriptions.''))))
       (\<lambda>e. e = Gateway TelegramAPIError)
       (\<lambda>_. log_append (Log_warning ''Could not set bot descriptions: %s'' (Some TelegramAPIError)))"

definition on_startup :: "(hstate, unit) exc" where
  "on_startup = thenE set_bot_texts (log_append (Log_info ''Bot started (on_startup complete).''))"

definition TOKEN_PLACEHOLDER :: string where "TOKEN_PLACEHOLDER = ''your_bot_token_here''"

text \<open>\<^verbatim>\<open>os.getenv("BOT_TOKEN", "your_bot_token_here")\<close> and the check after it;
  the argument is the environment variable, \<open>None\<close> when it is unset.\<close>

definition bot_token :: "string option \<Rightarrow> string" where
  "bot_token env = (case env of None \<Rightarrow> TOKEN_PLACEHOLDER | Some t \<Rightarrow> t)"

definition token_warning :: "string option \<Rightarrow> log_entry list" where
  "token_warning env =
     (if bot_token env = TOKEN_PLACEHOLDER
      then [Log_warning (''BOT_TOKEN is placeholder. Set BOT_TOKEN environment variable '' @
                         ''to your real token before deploying.'') None]
      else [])"

text \<open>The score a handler reads for a user: the stored one, or the default 0.\<close>

definition cur_score :: "store \<Rightarrow> user_id \<Rightarrow> int" where
  "cur_score us user = score (dict_get us user \<lparr>score = 0, qidx = None\<rparr>)"

text \<open>The handler state at process start: \<^verbatim>\<open>user_state = {}\<close> (line 34), nothing
  sent or logged.\<close>

definition init_hstate :: hstate where
  "init_hstate = \<lparr>user_state = Map.empty, sent = [], outcomes = [], log = []\<rparr>"

subsection \<open>Payload round trip\<close>

lemma bar_notin_str_of_nat [simp]: "CHR ''|'' \<notin> set (str_of_nat n)"
  using str_of_nat_digits [of n] digit_not_special(4) by blast

lemma bar_notin_str_of_int [simp]: "CHR ''|'' \<notin> set (str_of_int i)"
  by (simp add: str_of_int_def)

lemma py_split_answer_data:
  "py_split CHR ''|'' (answer_data qidx_v i) = [''answer'', str_of_int qidx_v, str_of_nat i]"
proof -
  have "answer_data qidx_v i = ''answer'' @ CHR ''|'' # (str_of_int qidx_v @ CHR ''|'' # str_of_nat i)"
    by (simp add: answer_data_def)
  then show ?thesis by (simp add: py_split_append_sep py_split_no_sep)
qed

lemma decode_answer_data [py_simps]: "decode_answer (answer_data qidx_v i) = Inr (qidx_v, int i)"
  by (simp add: decode_answer_def py_split_answer_data py_int_str_of_int py_int_str_of_nat)

lemma decode_hint_data [py_simps]: "decode_hint (hint_data qidx_v) = Inr qidx_v"
proof -
  have "hint_data qidx_v = ''hint'' @ CHR ''|'' # str_of_int qidx_v"
    by (simp add: hint_data_def)
  then have "py_split CHR ''|'' (hint_data qidx_v) = [''hint'', str_of_int qidx_v]"
    by (simp add: py_split_append_sep py_split_no_sep)
  then show ?thesis by (simp add: decode_hint_def py_int_str_of_int)
qed

subsection \<open>What the handlers do to the session store\<close>

lemma answer_feedback_io_only [io_only_intros]: "io_only (answer_feedback text n)"
  unfolding answer_feedback_def by (intro io_only_intros)

lemma cmd_start_io_only [io_only_intros]: "io_only cmd_start"
  unfolding cmd_start_def by (intro io_only_intros)

lemma cmd_score_io_only [io_only_intros]: "io_only (cmd_score user)"
  unfolding io_only_def cmd_score_def by (simp add: io_only_apply [OF io_only_await_call])

lemma process_hint_io_only [io_only_intros]: "io_only (process_hint data)"
  unfolding process_hint_def by (intro io_only_intros)

lemma set_bot_texts_io_only [io_only_intros]: "io_only set_bot_texts"
  unfolding set_bot_texts_def by (intro io_only_intros)

lemma process_answer_decode_error:
  "decode_answer data = Inl e \<Longrightarrow> process_answer user data n s = (Inl e, s)"
  by (simp add: process_answer_def)

lemma process_answer_index_error:
  "decode_answer data = Inr (qidx_v, choice) \<Longrightarrow> py_getitem QUESTIONS qidx_v = Inl e \<Longrightarrow>
   process_answer user data n s = (Inl e, s)"
  by (simp add: process_answer_def)

lemma process_answer_store:
  assumes "decode_answer data = Inr (qidx_v, choice)" "py_getitem QUESTIONS qidx_v = Inr qu"
  shows "user_state (snd (process_answer user data n s)) =
           (user_state s)(user \<mapsto> \<lparr>score = cur_score (user_state s) user +
                                        (if choice = answer_index qu then 10 else -5),
                                  qidx = Some n\<rparr>)"
  using assms
  by (auto simp: process_answer_def io_only_apply [OF answer_feedback_io_only] cur_score_def
        setdefault_def update_session_def dict_get_def split: option.splits)

lemma cmd_play_store:
  "user_state (snd (cmd_play user n s)) = (user_state s)(user \<mapsto> \<lparr>score = 0, qidx = Some n\<rparr>)"
  by (cases "py_getitem QUESTIONS (int n)"; cases "question_kb (int n)")
     (simp_all add: cmd_play_def io_only_apply [OF io_only_await_call])

lemma cmd_quit_store: "user_state (snd (cmd_quit user s)) = (user_state s)(user := None)"
  by (simp add: cmd_quit_def dict_del_def io_only_apply [OF io_only_await_call] domIff)

lemma process_quit_store: "user_state (snd (process_quit user s)) = (user_state s)(user := None)"
proof -
  have io: "io_only (thenE (await_call (Answer_callback ''Game ended. Goodbye.'' True))
          (await_call (Edit_text (CANDLE @ '' Game ended. Use /play to start again.'') None)))"
    by (intro io_only_intros)
  show ?thesis
    unfolding process_quit_def by (simp add: io_only_apply [OF io, unfolded thenE_def] dict_del_def domIff)
qed

text \<open>After the payload is decoded and the question found, the handler is its store
  update followed by the feedback block.\<close>

lemma process_answer_feedback:
  assumes "decode_answer data = Inr (qidx_v, choice)" "py_getitem QUESTIONS qidx_v = Inr qu"
  shows "process_answer user data n s =
           answer_feedback
             (if choice = answer_index qu then CHECK_MARK @ '' Correct! +10 points.''
              else CROSS_MARK @ '' Wrong. -5 points. Hint: '' @ hint qu) n
             (s\<lparr>user_state := (user_state s)(user \<mapsto>
                  \<lparr>score = cur_score (user_state s) user + (if choice = answer_index qu then 10 else -5),
                   qidx = Some n\<rparr>)\<rparr>)"
  using assms
  by (auto simp: process_answer_def cur_score_def setdefault_def update_session_def dict_get_def
        split: option.splits)

lemma answer_feedback_both_fail:
  "outcomes s = [Some e1, Some e2] \<Longrightarrow> n < length QUESTIONS \<Longrightarrow>
   fst (answer_feedback text n s) = Inl (Gateway e2)"
  by (simp add: answer_feedback_def catchE_def bindE_def await_call_def py_getitem_nat
        question_kb_valid)

subsection \<open>Properties of the handlers\<close>

text \<open>C4 (roundtrip): the keyboard of a question has one row per choice, then the hint
  and the quit rows; the payload of the \<open>k\<close>-th choice button decodes, by the code of
  \<^verbatim>\<open>process_answer\<close>, to the question's index and \<open>k\<close>, and the hint button's
  payload decodes, by the code of \<^verbatim>\<open>process_hint\<close>, to the question's index.\<close>

theorem question_kb_roundtrip:
  assumes "n < length QUESTIONS" "question_kb (int n) = Inr kb"
  shows "length kb = length (choices (QUESTIONS ! n)) + 2 \<and>
         (\<forall>k < length (choices (QUESTIONS ! n)).
            kb ! k = [InlineKeyboardButton (choices (QUESTIONS ! n) ! k) (answer_data (int n) k)] \<and>
            decode_answer (answer_data (int n) k) = Inr (int n, int k)) \<and>
         kb ! length (choices (QUESTIONS ! n)) = [InlineKeyboardButton ''Get Hint'' (hint_data (int n))] \<and>
         decode_hint (hint_data (int n)) = Inr (int n) \<and>
         kb ! Suc (length (choices (QUESTIONS ! n))) = [InlineKeyboardButton ''Quit Game'' ''quit'']"
proof -
  let ?cs = "choices (QUESTIONS ! n)"
  from question_kb_valid [OF assms(1)] assms(2)
  have kb: "kb = map (\<lambda>(k, c). [InlineKeyboardButton c (answer_data (int n) k)]) (zip [0..<length ?cs] ?cs)
               @ [[InlineKeyboardButton ''Get Hint'' (hint_data (int n))],
                  [InlineKeyboardButton ''Quit Game'' ''quit'']]"
    by simp
  show ?thesis
    by (simp add: kb nth_append decode_answer_data decode_hint_data)
qed

theorem question_kb_roundtrip_witness:
  "2 < length QUESTIONS \<and> question_kb 2 = Inr
     [[InlineKeyboardButton ''3222'' ''answer|2|0''], [InlineKeyboardButton ''3224'' ''answer|2|1''],
      [InlineKeyboardButton ''3223'' ''answer|2|2''], [InlineKeyboardButton ''1233'' ''answer|2|3''],
      [InlineKeyboardButton ''Get Hint'' ''hint|2''], [InlineKeyboardButton ''Quit Game'' ''quit'']] \<and>
   decode_answer (answer_data 2 3) = Inr (2, 3)"
proof -
  have h: "2 < length QUESTIONS" "question_kb (int 2) = Inr
     [[InlineKeyboardButton ''3222'' ''answer|2|0''], [InlineKeyboardButton ''3224'' ''answer|2|1''],
      [InlineKeyboardButton ''3223'' ''answer|2|2''], [InlineKeyboardButton ''1233'' ''answer|2|3''],
      [InlineKeyboardButton ''Get Hint'' ''hint|2''], [InlineKeyboardButton ''Quit Game'' ''quit'']]"
    by code_simp+
  show ?thesis using question_kb_roundtrip [OF h] h by (simp add: QUESTIONS_def)
qed

text \<open>C9 (error): when the in-place edit of an answered question fails, the handler sends
  the feedback and the next question as a new message and returns normally.\<close>

theorem answer_edit_failure_falls_back:
  assumes "n < length QUESTIONS" "outcomes s = [None, Some e]"
  shows "\<exists>kb. question_kb (int n) = Inr kb \<and>
           answer_feedback text n s =
             (Inr (), s\<lparr>sent := sent s @
                         [(Answer_callback text True, None),
                          (Edit_text (next_txt text (QUESTIONS ! n)) (Some kb), Some e),
                          (Reply (next_txt text (QUESTIONS ! n)) (Some kb), None)],
                       outcomes := []\<rparr>)"
  using assms
  by (simp add: answer_feedback_def catchE_def bindE_def await_call_def py_getitem_nat
        question_kb_valid)

theorem answer_edit_failure_falls_back_witness:
  "0 < length QUESTIONS \<and>
   outcomes (init_hstate\<lparr>outcomes := [None, Some TelegramAPIError]\<rparr>) = [None, Some TelegramAPIError] \<and>
   (\<exists>kb. question_kb 0 = Inr kb \<and>
      answer_feedback ''ok'' 0 (init_hstate\<lparr>outcomes := [None, Some TelegramAPIError]\<rparr>) =
        (Inr (), init_hstate\<lparr>sent := [(Answer_callback ''ok'' True, None),
                           (Edit_text (next_txt ''ok'' (QUESTIONS ! 0)) (Some kb), Some TelegramAPIError),
                           (Reply (next_txt ''ok'' (QUESTIONS ! 0)) (Some kb), None)]\<rparr>))"
  using answer_edit_failure_falls_back [of 0 "init_hstate\<lparr>outcomes := [None, Some TelegramAPIError]\<rparr>"
      TelegramAPIError "''ok''"]
  by (simp add: init_hstate_def)

text \<open>C10 (error): when the platform fails both the acknowledgement and the fallback
  message, the exception of the fallback propagates out of the handler, while the score
  update made before it stays.\<close>

theorem answer_io_failure_propagates:
  assumes "decode_answer data = Inr (qidx_v, choice)" "py_getitem QUESTIONS qidx_v = Inr qu"
    and "n < length QUESTIONS" "outcomes s = [Some e1, Some e2]"
  shows "fst (process_answer user data n s) = Inl (Gateway e2) \<and>
         user_state (snd (process_answer user data n s)) =
           (user_state s)(user \<mapsto> \<lparr>score = cur_score (user_state s) user +
                                        (if choice = answer_index qu then 10 else -5),
                                  qidx = Some n\<rparr>)"
  using assms
  by (simp add: process_answer_feedback answer_feedback_both_fail
        io_only_apply [OF answer_feedback_io_only])

theorem answer_io_failure_propagates_witness:
  "decode_answer ''answer|0|1'' = Inr (0, 1) \<and> py_getitem QUESTIONS 0 = Inr (QUESTIONS ! 0) \<and>
   fst (process_answer 7 ''answer|0|1'' 2
          (init_hstate\<lparr>outcomes := [Some TimeoutError, Some TimeoutError]\<rparr>)) =
     Inl (Gateway TimeoutError) \<and>
   user_state (snd (process_answer 7 ''answer|0|1'' 2
       (init_hstate\<lparr>outcomes := [Some TimeoutError, Some TimeoutError]\<rparr>))) =
     [7 \<mapsto> \<lparr>score = 10, qidx = Some 2\<rparr>]"
proof -
  have h: "decode_answer ''answer|0|1'' = Inr (0, 1)" "py_getitem QUESTIONS 0 = Inr (QUESTIONS ! 0)"
    "2 < length QUESTIONS"
    "outcomes (init_hstate\<lparr>outcomes := [Some TimeoutError, Some TimeoutError]\<rparr>) =
       [Some TimeoutError, Some TimeoutError]"
    by (simp_all add: decode_answer_def py_int_def strip_ws_def is_py_space_def parse_decimal_def
          digits_value_def digit_val_def is_digit_def unpack3_def py_getitem_def)
  show ?thesis using answer_io_failure_propagates [OF h, of 7] h
    by (simp add: init_hstate_def cur_score_def dict_get_def QUESTIONS_def)
qed

text \<open>C11: the quit button of a user with no session still acknowledges "Game ended" and
  edits the message, while the \<^verbatim>\<open>/quit\<close> command answers "No active game"; neither
  changes anything else.\<close>

theorem quit_button_vs_command:
  assumes "user_state s u = None" "outcomes s = []"
  shows "snd (process_quit u s) =
           s\<lparr>sent := sent s @ [(Answer_callback ''Game ended. Goodbye.'' True, None),
               (Edit_text (CANDLE @ '' Game ended. Use /play to start again.'') None, None)]\<rparr> \<and>
         snd (cmd_quit u s) =
           s\<lparr>sent := sent s @ [(Reply ''No active game. Use /play to begin.'' None, None)]\<rparr>"
  using assms by (simp add: process_quit_def cmd_quit_def domIff bindE_def)

theorem quit_button_vs_command_witness:
  "user_state init_hstate 7 = None \<and> outcomes init_hstate = [] \<and>
   sent (snd (process_quit 7 init_hstate)) =
     [(Answer_callback ''Game ended. Goodbye.'' True, None),
      (Edit_text (CANDLE @ '' Game ended. Use /play to start again.'') None, None)] \<and>
   sent (snd (cmd_quit 7 init_hstate)) = [(Reply ''No active game. Use /play to begin.'' None, None)]"
proof -
  have h: "user_state init_hstate 7 = None" "outcomes init_hstate = []"
    by (simp_all add: init_hstate_def)
  show ?thesis using quit_button_vs_command [OF h] h by (simp add: init_hstate_def)
qed

text \<open>C13 (error): registering the descriptions at startup never lets an API error of the
  platform escape (it is logged as a warning); the only exception that can escape is a
  timeout, which \<^verbatim>\<open>except TelegramAPIError\<close> does not catch.\<close>

theorem set_bot_texts_api_errors_caught:
  "fst (set_bot_texts s) = Inr () \<or> fst (set_bot_texts s) = Inl (Gateway TimeoutError)"
  by (auto simp: set_bot_texts_def catchE_def bindE_def await_call_def log_append_def Let_def
        split: list.splits option.splits io_error.splits)

end
