(* ===== verification/Dispatch.thy ===== *)
theory Dispatch
  imports Handlers
begin

text \<open>
  How aiogram routes an update of \<^verbatim>\<open>src/bot_aiogram.py\<close> to a handler, and the bot
  as a state machine. A message handler is chosen by its command (lines 72, 84, 92, 98);
  the event carries the command name that aiogram's \<^verbatim>\<open>Command\<close> filter extracts
  from the text, and a message with no registered command is ignored. Callback handlers
  are tried in registration order with their filters (lines 107, 131, 139): a payload
  starting with \<^verbatim>\<open>answer|\<close>, the payload \<^verbatim>\<open>quit\<close>, a payload starting with
  \<^verbatim>\<open>hint|\<close>; a missing or empty payload, or one that no filter accepts, is ignored.
  An exception a handler raises is caught and logged by aiogram's dispatcher: the bot
  keeps the state the handler left (\<open>bot_step\<close>). The environment chooses every
  event, every value of \<^verbatim>\<open>random.randrange\<close> below \<open>length QUESTIONS\<close> and every
  answer of the platform; \<open>reachable\<close> collects the states the bot can reach so.

  The abstract specification is a score machine over \<open>user_id \<Rightarrow> int option\<close>
  (\<open>abs_step\<close>): play sets a user's score to 0, an answer adds 10 or -5 to the score or
  to 0, quit deletes it, every other event keeps it. \<open>scores\<close> maps the session store
  to it, and each bot step refines the abstract step of its event (\<open>classify\<close>).
\<close>

datatype event = Command user_id string | Callback user_id "string option"

definition dispatch :: "event \<Rightarrow> nat \<Rightarrow> (hstate, unit) exc" where
  "dispatch ev r =
     (case ev of
        Command user c \<Rightarrow>
          if c = ''start'' \<or> c = ''help'' then cmd_start
          else if c = ''play'' then cmd_play user r
          else if c = ''score'' then cmd_score user
          else if c = ''quit'' then cmd_quit user
          else returnE ()
      | Callback user d \<Rightarrow>
          (case d of
             None \<Rightarrow> returnE ()
           | Some data \<Rightarrow>
               if data \<noteq> [] \<and> starts_with data ''answer|'' then process_answer user data r
               else if data = ''quit'' then process_quit user
               else if data \<noteq> [] \<and> starts_with data ''hint|'' then process_hint data
               else returnE ()))"

definition bot_step :: "hstate \<Rightarrow> event \<Rightarrow> nat \<Rightarrow> hstate" where
  "bot_step s ev r = snd (dispatch ev r s)"

fun bot_run :: "hstate \<Rightarrow> (event \<times> nat) list \<Rightarrow> hstate" where
  "bot_run s [] = s"
| "bot_run s ((ev, r) # evs) = bot_run (bot_step s ev r) evs"

inductive reachable :: "hstate \<Rightarrow> bool" where
  start: "user_state s = Map.empty \<Longrightarrow> reachable s"
| step: "reachable s \<Longrightarrow> r < length QUESTIONS \<Longrightarrow>
           reachable (bot_step (s\<lparr>outcomes := os\<rparr>) ev r)"

definition init_state :: hstate where
  "init_state = \<lparr>user_state = Map.empty, sent = [], outcomes = [], log = []\<rparr>"

subsection \<open>The session invariant\<close>

definition sessions_ok :: "store \<Rightarrow> bool" where
  "sessions_ok us \<longleftrightarrow> (\<forall>u st. us u = Some st \<longrightarrow> (\<exists>i. qidx st = Some i \<and> i < length QUESTIONS))"

subsection \<open>The abstract score machine\<close>

datatype abs_op = Abs_play | Abs_answer bool | Abs_quit | Abs_keep

definition abs_step :: "(user_id \<Rightarrow> int option) \<Rightarrow> user_id \<Rightarrow> abs_op \<Rightarrow> (user_id \<Rightarrow> int option)" where
  "abs_step m u op =
     (case op of
        Abs_play \<Rightarrow> m(u \<mapsto> 0)
      | Abs_answer correct \<Rightarrow>
          m(u \<mapsto> (case m u of None \<Rightarrow> 0 | Some x \<Rightarrow> x) + (if correct then 10 else -5))
      | Abs_quit \<Rightarrow> m(u := None)
      | Abs_keep \<Rightarrow> m)"

definition scores :: "store \<Rightarrow> user_id \<Rightarrow> int option" where
  "scores us = (\<lambda>u. map_option score (us u))"

fun event_user :: "event \<Rightarrow> user_id" where
  "event_user (Command u _) = u"
| "event_user (Callback u _) = u"

text \<open>What an answer payload does to the score, read off the payload alone.\<close>

definition classify_answer :: "string \<Rightarrow> abs_op" where
  "classify_answer data =
     (case decode_answer data of
        Inl _ \<Rightarrow> Abs_keep
      | Inr (qidx_v, choice) \<Rightarrow>
          (case py_getitem QUESTIONS qidx_v of
             Inl _ \<Rightarrow> Abs_keep
           | Inr qu \<Rightarrow> Abs_answer (choice = answer_index qu)))"

definition classify :: "event \<Rightarrow> abs_op" where
  "classify ev =
     (case ev of
        Command _ c \<Rightarrow>
          if c = ''play'' then Abs_play else if c = ''quit'' then Abs_quit else Abs_keep
      | Callback _ d \<Rightarrow>
          (case d of
             None \<Rightarrow> Abs_keep
           | Some data \<Rightarrow>
               if data \<noteq> [] \<and> starts_with data ''answer|'' then classify_answer data
               else if data = ''quit'' then Abs_quit
               else Abs_keep))"

subsection \<open>Lemmas: the session invariant\<close>

lemma process_answer_store_cases:
  "user_state (snd (process_answer user data n s)) = user_state s \<or>
   (\<exists>sc. user_state (snd (process_answer user data n s)) =
           (user_state s)(user \<mapsto> \<lparr>score = sc, qidx = Some n\<rparr>))"
proof (cases "decode_answer data")
  case (Inl e)
  then show ?thesis by (simp add: process_answer_decode_error)
next
  case (Inr p)
  obtain qidx_v choice where p: "p = (qidx_v, choice)" by (cases p)
  show ?thesis
  proof (cases "py_getitem QUESTIONS qidx_v")
    case (Inl e)
    with Inr p show ?thesis by (simp add: process_answer_index_error)
  next
    case (Inr qu)
    with \<open>decode_answer data = Inr p\<close> p show ?thesis by (auto simp: process_answer_store)
  qed
qed

lemma sessions_ok_upd [simp]:
  "sessions_ok us \<Longrightarrow> n < length QUESTIONS \<Longrightarrow> sessions_ok (us(u \<mapsto> \<lparr>score = sc, qidx = Some n\<rparr>))"
  by (simp add: sessions_ok_def)

lemma sessions_ok_del [simp]: "sessions_ok us \<Longrightarrow> sessions_ok (us(u := None))"
  by (simp add: sessions_ok_def)

lemma dispatch_sessions_ok:
  assumes "sessions_ok (user_state s)" "r < length QUESTIONS"
  shows "sessions_ok (user_state (bot_step s ev r))"
proof (cases ev)
  case (Command user c)
  with assms show ?thesis
    by (simp add: bot_step_def dispatch_def cmd_play_store cmd_quit_store
          io_only_apply [OF cmd_start_io_only] io_only_apply [OF cmd_score_io_only])
next
  case (Callback user d)
  have "sessions_ok (user_state (snd (process_answer user data r s)))" for data
    using process_answer_store_cases [of user data r s] assms by auto
  with Callback assms show ?thesis
    by (simp add: bot_step_def dispatch_def process_quit_store
          io_only_apply [OF process_hint_io_only] split: option.splits)
qed

lemma scores_upd [simp]: "scores (us(u \<mapsto> st)) = (scores us)(u \<mapsto> score st)"
  by (simp add: scores_def fun_eq_iff)

lemma scores_del [simp]: "scores (us(u := None)) = (scores us)(u := None)"
  by (simp add: scores_def fun_eq_iff)

lemma cur_score_scores: "cur_score us u = (case scores us u of None \<Rightarrow> 0 | Some x \<Rightarrow> x)"
  by (simp add: cur_score_def scores_def dict_get_def split: option.splits)

lemma process_answer_scores:
  "scores (user_state (snd (process_answer user data n s))) =
   abs_step (scores (user_state s)) user (classify_answer data)"
proof (cases "decode_answer data")
  case (Inl e)
  then show ?thesis
    by (simp add: process_answer_decode_error classify_answer_def abs_step_def)
next
  case (Inr p)
  obtain qidx_v choice where p: "p = (qidx_v, choice)" by (cases p)
  show ?thesis
  proof (cases "py_getitem QUESTIONS qidx_v")
    case (Inl e)
    with Inr p show ?thesis
      by (simp add: process_answer_index_error classify_answer_def abs_step_def)
  next
    case (Inr qu)
    with \<open>decode_answer data = Inr p\<close> p show ?thesis
      by (simp add: process_answer_store classify_answer_def abs_step_def cur_score_scores)
  qed
qed

lemma answer_data_prefix [simp]: "starts_with (answer_data qidx_v i) ''answer|''"
  by (simp add: answer_data_def starts_with_def)

lemma answer_prefix_nonempty: "starts_with data ''answer|'' \<Longrightarrow> data \<noteq> []"
  by (auto simp: starts_with_split)

text \<open>Every bot step acts on the scores as the abstract step of its event.\<close>

lemma bot_step_scores:
  "scores (user_state (bot_step s ev r)) =
   abs_step (scores (user_state s)) (event_user ev) (classify ev)"
proof (cases ev)
  case (Command user c)
  then show ?thesis
    by (simp add: bot_step_def dispatch_def classify_def abs_step_def cmd_play_store
          cmd_quit_store io_only_apply [OF cmd_start_io_only] io_only_apply [OF cmd_score_io_only])
next
  case (Callback user d)
  then show ?thesis
    by (simp add: bot_step_def dispatch_def classify_def abs_step_def process_answer_scores
          process_quit_store io_only_apply [OF process_hint_io_only] split: option.splits)
qed

lemmas py_eval_simps = decode_answer_def decode_hint_def py_int_def strip_ws_def is_py_space_def
  parse_decimal_def digits_value_def digit_val_def is_digit_def unpack3_def unpack2_def
  py_getitem_def starts_with_def

subsection \<open>Properties of the dispatched handlers\<close>

text \<open>C1: an answer payload that decodes to a question of the bank and a choice adds 10
  to the user's score (or to 0 when the user has no session) if the choice is the
  question's \<open>answer_index\<close> and -5 otherwise, and makes the drawn index the user's
  current question; the session's current question plays no part, so stale buttons
  count.\<close>

theorem answer_updates_score:
  assumes "starts_with data ''answer|''" "decode_answer data = Inr (qidx_v, choice)"
    and "py_getitem QUESTIONS qidx_v = Inr qu"
  shows "user_state (bot_step s (Callback u (Some data)) n) =
           (user_state s)(u \<mapsto> \<lparr>score = cur_score (user_state s) u +
                                     (if choice = answer_index qu then 10 else -5),
                               qidx = Some n\<rparr>)"
  using assms answer_prefix_nonempty [OF assms(1)]
  by (simp add: bot_step_def dispatch_def process_answer_store)

theorem answer_updates_score_witness:
  "starts_with ''answer|1|2'' ''answer|'' \<and> decode_answer ''answer|1|2'' = Inr (1, 2) \<and>
   py_getitem QUESTIONS 1 = Inr (QUESTIONS ! 1) \<and>
   user_state (bot_step init_state (Callback 7 (Some ''answer|1|2'')) 0) =
     [7 \<mapsto> \<lparr>score = 10, qidx = Some 0\<rparr>]"
proof -
  have h: "starts_with ''answer|1|2'' ''answer|''" "decode_answer ''answer|1|2'' = Inr (1, 2)"
    "py_getitem QUESTIONS 1 = Inr (QUESTIONS ! 1)"
    by (simp_all add: py_eval_simps)
  show ?thesis
    using answer_updates_score [OF h, of init_state 7 0] h
    by (simp add: init_state_def cur_score_def dict_get_def QUESTIONS_def)
qed

text \<open>C2 (refinement): every step of the bot, whatever the platform answers and whatever
  index is drawn, acts on the users' scores as the abstract score machine's step for its
  event: the session store refines the Session Store contract of the game.\<close>

theorem bot_step_refines_scores:
  "scores (user_state (bot_step s ev r)) =
   abs_step (scores (user_state s)) (event_user ev) (classify ev)"
  by (rule bot_step_scores)

text \<open>C3 (invariant): in every reachable state, every stored session has a current
  question, and it is a valid index of the bank.\<close>

theorem reachable_sessions_ok: "reachable s \<Longrightarrow> sessions_ok (user_state s)"
proof (induction rule: reachable.induct)
  case (start s)
  then show ?case by (simp add: sessions_ok_def)
next
  case (step s r os ev)
  then have "sessions_ok (user_state (s\<lparr>outcomes := os\<rparr>))" by simp
  from this step.hyps(2) show ?case by (rule dispatch_sessions_ok)
qed

theorem reachable_sessions_ok_witness:
  "reachable (bot_step (init_state\<lparr>outcomes := []\<rparr>) (Command 7 ''play'') 2) \<and>
   sessions_ok (user_state (bot_step (init_state\<lparr>outcomes := []\<rparr>) (Command 7 ''play'') 2))"
proof -
  have r: "reachable (bot_step (init_state\<lparr>outcomes := []\<rparr>) (Command 7 ''play'') 2)"
    by (rule reachable.step [OF reachable.start]) (simp_all add: init_state_def)
  show ?thesis using reachable_sessions_ok [OF r] r by simp
qed

text \<open>C5: \<^verbatim>\<open>/play\<close> resets the user's session to score 0 with the drawn question,
  whatever the user's score was.\<close>

theorem play_resets_score:
  "user_state (bot_step s (Command u ''play'') n) u = Some \<lparr>score = 0, qidx = Some n\<rparr>"
  by (simp add: bot_step_def dispatch_def cmd_play_store)

text \<open>C6 (safety): a hint payload never changes the session store: no score and no
  current question changes, whether the payload decodes or not.\<close>

theorem hint_keeps_store:
  assumes "starts_with data ''hint|''"
  shows "user_state (bot_step s (Callback u (Some data)) r) = user_state s"
proof -
  from assms obtain t where "data = ''hint|'' @ t" by (auto simp: starts_with_split)
  then show ?thesis
    by (simp add: bot_step_def dispatch_def starts_with_def io_only_apply [OF process_hint_io_only])
qed

theorem hint_keeps_store_witness:
  "starts_with ''hint|2'' ''hint|'' \<and>
   user_state (bot_step (init_state\<lparr>user_state := [7 \<mapsto> \<lparr>score = 5, qidx = Some 1\<rparr>]\<rparr>)
                 (Callback 7 (Some ''hint|2'')) 0) = [7 \<mapsto> \<lparr>score = 5, qidx = Some 1\<rparr>]"
proof -
  have h: "starts_with ''hint|2'' ''hint|''" by (simp add: starts_with_def)
  show ?thesis
    using hint_keeps_store [OF h, of "init_state\<lparr>user_state := [7 \<mapsto> \<lparr>score = 5, qidx = Some 1\<rparr>]\<rparr>" 7 0] h
    by simp
qed

text \<open>C7 (error): an answer payload whose question index lies outside the bank (beyond
  Python's negative indices too) raises \<^verbatim>\<open>IndexError\<close> before anything is written or
  sent: the whole state is unchanged.\<close>

theorem answer_out_of_range_rejected:
  assumes "starts_with data ''answer|''" "decode_answer data = Inr (qidx_v, choice)"
    and "qidx_v < - int (length QUESTIONS) \<or> int (length QUESTIONS) \<le> qidx_v"
  shows "dispatch (Callback u (Some data)) r s = (Inl IndexError, s)"
proof -
  from assms(3) have "py_getitem QUESTIONS qidx_v = Inl IndexError"
    by (simp add: py_getitem_error)
  with assms(2) answer_prefix_nonempty [OF assms(1)] assms(1) show ?thesis
    by (simp add: dispatch_def process_answer_index_error)
qed

theorem answer_out_of_range_rejected_witness:
  "starts_with ''answer|4|0'' ''answer|'' \<and> decode_answer ''answer|4|0'' = Inr (4, 0) \<and>
   ((4::int) < - int (length QUESTIONS) \<or> int (length QUESTIONS) \<le> 4) \<and>
   dispatch (Callback 7 (Some ''answer|4|0'')) 1 init_state = (Inl IndexError, init_state)"
proof -
  have h: "starts_with ''answer|4|0'' ''answer|''" "decode_answer ''answer|4|0'' = Inr (4, 0)"
    "(4::int) < - int (length QUESTIONS) \<or> int (length QUESTIONS) \<le> 4"
    by (simp_all add: py_eval_simps)
  show ?thesis using answer_out_of_range_rejected [OF h, of 7 1 init_state] h by simp
qed

end
