(* ===== verification/Command_Filter.thy ===== *)
theory Command_Filter
  imports Dispatch
begin

text \<open>
  How a message text reaches a command handler of \<^verbatim>\<open>src/bot_aiogram.py\<close>. The
  decorators \<^verbatim>\<open>@dp.message_handler(commands=[...])\<close> (lines 72, 84, 92, 98) register
  each handler with aiogram's \<^verbatim>\<open>Command\<close> filter, in this order. The filter, part of
  aiogram 2 and not of the repository, takes the first word of the text
  (\<^verbatim>\<open>message.text.split()[0]\<close>), splits it into its first character (the prefix) and
  the rest, partitions the rest at the first \<^verbatim>\<open>@\<close> into the command and the mention,
  rejects a mention that is not the bot's user name (compared ignoring case), rejects a
  prefix other than \<^verbatim>\<open>/\<close>, and accepts when the lower-cased command is one of the
  handler's commands. The first handler whose filter accepts is called. Case is folded on
  ASCII letters (the texts are byte strings); whitespace is Python's ASCII whitespace.

  \<open>parse_command\<close> reads the command off a text once; \<open>route_message_parse\<close>
  shows that trying the handlers in registration order is that parse followed by the
  command dispatch of \<open>Dispatch\<close>, whose events carry the command name.
\<close>

subsection \<open>The string operations of the filter\<close>

text \<open>\<^verbatim>\<open>str.split()\<close> without a separator: the maximal runs of non-whitespace.\<close>

function py_split_ws :: "string \<Rightarrow> string list" where
  "py_split_ws [] = []"
| "py_split_ws (c # cs) =
     (if is_py_space c then py_split_ws cs
      else takeWhile (\<lambda>x. \<not> is_py_space x) (c # cs) #
           py_split_ws (dropWhile (\<lambda>x. \<not> is_py_space x) cs))"
  by pat_completeness auto
termination
  by (relation "measure length") (auto simp: le_imp_less_Suc length_dropWhile_le)

text \<open>\<^verbatim>\<open>str.partition(sep)\<close> for a one-character separator.\<close>

definition py_partition :: "char \<Rightarrow> string \<Rightarrow> string \<times> string \<times> string" where
  "py_partition c s =
     (if c \<in> set s then (takeWhile (\<lambda>x. x \<noteq> c) s, [c], tl (dropWhile (\<lambda>x. x \<noteq> c) s))
      else (s, [], []))"

definition lower_char :: "char \<Rightarrow> char" where
  "lower_char c =
     (let n = (of_char c :: nat) in if 65 \<le> n \<and> n \<le> 90 then char_of (n + 32) else c)"

text \<open>\<^verbatim>\<open>str.lower()\<close> on ASCII letters.\<close>

definition py_lower :: "string \<Rightarrow> string" where
  "py_lower s = map lower_char s"

subsection \<open>aiogram's \<^verbatim>\<open>Command\<close> filter and the handler registrations\<close>

text \<open>\<^verbatim>\<open>Command.check_command\<close> with the defaults of \<^verbatim>\<open>commands=[...]\<close>: prefix
  \<^verbatim>\<open>/\<close>, case ignored, mention checked against the bot's user name \<open>me\<close>. An empty
  text is rejected; a text of whitespace only makes \<^verbatim>\<open>split()[0]\<close> raise.\<close>

definition check_command :: "string \<Rightarrow> string list \<Rightarrow> string \<Rightarrow> py_error + bool" where
  "check_command me commands text =
     (if text = [] then Inr False
      else case py_getitem (py_split_ws text) 0 of
        Inl e \<Rightarrow> Inl e
      | Inr full_command \<Rightarrow>
          (let prefix = hd full_command;
               parts = py_partition CHR ''@'' (tl full_command);
               command = fst parts; mention = snd (snd parts)
           in if mention \<noteq> [] \<and> py_lower me \<noteq> py_lower mention then Inr False
              else if prefix \<noteq> CHR ''/'' then Inr False
              else Inr (py_lower command \<in> set (map py_lower commands))))"

type_synonym message_handler = "string list \<times> (user_id \<Rightarrow> nat \<Rightarrow> (hstate, unit) exc)"

text \<open>The message handlers in registration order, with their commands.\<close>

definition message_handlers :: "message_handler list" where
  "message_handlers =
     [([''start'', ''help''], \<lambda>user r. cmd_start),
      ([''play''], \<lambda>user r. cmd_play user r),
      ([''score''], \<lambda>user r. cmd_score user),
      ([''quit''], \<lambda>user r. cmd_quit user)]"

text \<open>aiogram tries the handlers in order and calls the first whose filter accepts; an
  exception raised by a filter ends the update.\<close>

fun route_message ::
  "string \<Rightarrow> message_handler list \<Rightarrow> user_id \<Rightarrow> string \<Rightarrow> nat \<Rightarrow> (hstate, unit) exc" where
  "route_message me [] user text r = returnE ()"
| "route_message me ((commands, h) # hs) user text r =
     (case check_command me commands text of
        Inl e \<Rightarrow> raiseE e
      | Inr accepted \<Rightarrow> if accepted then h user r else route_message me hs user text r)"

definition message_step :: "string \<Rightarrow> hstate \<Rightarrow> user_id \<Rightarrow> string \<Rightarrow> nat \<Rightarrow> hstate" where
  "message_step me s user text r = snd (route_message me message_handlers user text r s)"

subsection \<open>The command a text names\<close>

text \<open>The reference reading of a text: the error of the filter, no command, or the
  lower-cased command of its first word.\<close>

definition parse_command :: "string \<Rightarrow> string \<Rightarrow> py_error + string option" where
  "parse_command me text =
     (if text = [] then Inr None
      else if dropWhile is_py_space text = [] then Inl IndexError
      else
        (let word = takeWhile (\<lambda>x. \<not> is_py_space x) (dropWhile is_py_space text);
             parts = py_partition CHR ''@'' (tl word);
             command = fst parts; mention = snd (snd parts)
         in if mention \<noteq> [] \<and> py_lower me \<noteq> py_lower mention then Inr None
            else if hd word \<noteq> CHR ''/'' then Inr None
            else Inr (Some (py_lower command))))"

subsection \<open>Lemmas\<close>

lemma py_getitem_zero: "py_getitem xs 0 = (if xs = [] then Inl IndexError else Inr (hd xs))"
  by (cases xs) (simp_all add: py_getitem_def)

lemma py_split_ws_Nil: "py_split_ws t = [] \<longleftrightarrow> dropWhile is_py_space t = []"
  by (induction t rule: py_split_ws.induct) auto

lemma py_split_ws_hd:
  "dropWhile is_py_space t \<noteq> [] \<Longrightarrow>
   hd (py_split_ws t) = takeWhile (\<lambda>x. \<not> is_py_space x) (dropWhile is_py_space t)"
  by (induction t rule: py_split_ws.induct) auto

text \<open>\<^verbatim>\<open>split()[0]\<close> is the first word, or raises on a text of whitespace.\<close>

lemma py_split_ws_first:
  "py_getitem (py_split_ws t) 0 =
     (if dropWhile is_py_space t = [] then Inl IndexError
      else Inr (takeWhile (\<lambda>x. \<not> is_py_space x) (dropWhile is_py_space t)))"
  by (simp add: py_getitem_zero py_split_ws_Nil py_split_ws_hd)

lemma check_command_parse:
  "check_command me commands text =
     (case parse_command me text of
        Inl e \<Rightarrow> Inl e
      | Inr None \<Rightarrow> Inr False
      | Inr (Some c) \<Rightarrow> Inr (c \<in> set (map py_lower commands)))"
  by (simp add: check_command_def parse_command_def py_split_ws_first Let_def)

lemma py_lower_commands [simp]:
  "map py_lower [''start'', ''help''] = [''start'', ''help'']" "map py_lower [''play''] = [''play'']"
  "map py_lower [''score''] = [''score'']" "map py_lower [''quit''] = [''quit'']"
  by code_simp+

lemma dispatch_command:
  "dispatch (Command user c) r =
     (if c = ''start'' \<or> c = ''help'' then cmd_start
      else if c = ''play'' then cmd_play user r
      else if c = ''score'' then cmd_score user
      else if c = ''quit'' then cmd_quit user
      else returnE ())"
  by (simp only: dispatch_def event.case)

lemma route_message_parse:
  "route_message me message_handlers user text r =
     (case parse_command me text of
        Inl e \<Rightarrow> raiseE e
      | Inr None \<Rightarrow> returnE ()
      | Inr (Some c) \<Rightarrow> dispatch (Command user c) r)"
proof (cases "parse_command me text")
  case (Inr p)
  show ?thesis
  proof (cases p)
    case None
    with Inr show ?thesis by (simp add: message_handlers_def check_command_parse)
  next
    case (Some c)
    with Inr have "route_message me message_handlers user text r =
      (if c \<in> set [''start'', ''help''] then cmd_start
       else if c \<in> set [''play''] then cmd_play user r
       else if c \<in> set [''score''] then cmd_score user
       else if c \<in> set [''quit''] then cmd_quit user else returnE ())"
      by (simp only: message_handlers_def route_message.simps check_command_parse py_lower_commands
          sum.case option.case)
    also have "\<dots> = dispatch (Command user c) r"
      by (simp only: dispatch_command set_simps insert_iff empty_iff simp_thms)
    finally show ?thesis using Inr Some by simp
  qed
qed (simp add: message_handlers_def check_command_parse)

lemma not_space_slash [simp]: "\<not> is_py_space CHR ''/''"
  by (simp add: is_py_space_def)

lemma takeWhile_word:
  "\<forall>x\<in>set w. \<not> is_py_space x \<Longrightarrow> rest = [] \<or> is_py_space (hd rest) \<Longrightarrow>
   takeWhile (\<lambda>x. \<not> is_py_space x) (w @ rest) = w"
  by (cases rest) (simp_all add: takeWhile_append2)

lemma py_partition_absent: "c \<notin> set s \<Longrightarrow> py_partition c s = (s, [], [])"
  by (simp add: py_partition_def)

lemma takeWhile_upto: "c \<notin> set s \<Longrightarrow> takeWhile (\<lambda>x. x \<noteq> c) (s @ c # t) = s"
  by (induction s) auto

lemma dropWhile_upto: "c \<notin> set s \<Longrightarrow> dropWhile (\<lambda>x. x \<noteq> c) (s @ c # t) = c # t"
  by (induction s) auto

lemma py_partition_first:
  "c \<notin> set s \<Longrightarrow> py_partition c (s @ c # t) = (s, [c], t)"
  by (simp add: py_partition_def takeWhile_upto dropWhile_upto)

subsection \<open>Properties of the command filter\<close>

text \<open>C17 (roundtrip): a text \<^verbatim>\<open>/cmd args\<close> reaches the handler of the lower-cased
  \<^verbatim>\<open>cmd\<close>; with a mention, \<^verbatim>\<open>/cmd@name args\<close> does so when the name is the bot's
  own ignoring case, and is ignored otherwise.\<close>

theorem command_text_routes:
  assumes "\<forall>x\<in>set c. \<not> is_py_space x \<and> x \<noteq> CHR ''@''" "\<forall>x\<in>set m. \<not> is_py_space x"
    and "rest = [] \<or> is_py_space (hd rest)"
  shows "route_message me message_handlers user (CHR ''/'' # c @ rest) r =
           dispatch (Command user (py_lower c)) r \<and>
         route_message me message_handlers user (CHR ''/'' # c @ CHR ''@'' # m @ rest) r =
           (if m = [] \<or> py_lower me = py_lower m then dispatch (Command user (py_lower c)) r
            else returnE ())"
proof -
  have c: "\<forall>x\<in>set c. \<not> is_py_space x" "CHR ''@'' \<notin> set c" using assms(1) by auto
  have at: "\<not> is_py_space CHR ''@''" by (simp add: is_py_space_def)
  have w1: "takeWhile (\<lambda>x. \<not> is_py_space x) ((CHR ''/'' # c) @ rest) = CHR ''/'' # c"
    using c(1) assms(3) by (intro takeWhile_word) simp_all
  have w2: "takeWhile (\<lambda>x. \<not> is_py_space x) ((CHR ''/'' # c @ CHR ''@'' # m) @ rest) =
            CHR ''/'' # c @ CHR ''@'' # m"
    using c(1) assms(2,3) at by (intro takeWhile_word) auto
  have "parse_command me (CHR ''/'' # c @ rest) = Inr (Some (py_lower c))"
    using w1 c(2) by (simp add: parse_command_def Let_def py_partition_absent)
  moreover have "parse_command me (CHR ''/'' # c @ CHR ''@'' # m @ rest) =
                   (if m = [] \<or> py_lower me = py_lower m then Inr (Some (py_lower c)) else Inr None)"
    using w2 c(2) by (simp add: parse_command_def Let_def py_partition_first)
  ultimately show ?thesis by (simp add: route_message_parse)
qed

theorem command_text_routes_witness:
  "route_message ''strangebot'' message_handlers 7 ''/PLAY now'' 0 = dispatch (Command 7 ''play'') 0 \<and>
   route_message ''strangebot'' message_handlers 7 ''/PLAY@StrangeBot now'' 0 =
     dispatch (Command 7 ''play'') 0 \<and>
   route_message ''strangebot'' message_handlers 7 ''/PLAY@OtherBot now'' 0 = returnE ()"
proof -
  have h: "\<forall>x\<in>set ''PLAY''. \<not> is_py_space x \<and> x \<noteq> CHR ''@''" "\<forall>x\<in>set ''StrangeBot''. \<not> is_py_space x"
    "\<forall>x\<in>set ''OtherBot''. \<not> is_py_space x" "'' now'' = [] \<or> is_py_space (hd '' now'')"
    by code_simp+
  have l: "py_lower ''PLAY'' = ''play''" "py_lower ''strangebot'' = py_lower ''StrangeBot''"
    "py_lower ''strangebot'' \<noteq> py_lower ''OtherBot''"
    by code_simp+
  from command_text_routes [OF h(1,2,4), of "''strangebot''" 7 0]
       command_text_routes [OF h(1,3,4), of "''strangebot''" 7 0] l
  show ?thesis by simp
qed

text \<open>C18 (error): a text of whitespace only makes the filter's \<^verbatim>\<open>split()[0]\<close> raise
  \<^verbatim>\<open>IndexError\<close>; no handler runs and the state is unchanged.\<close>

theorem blank_text_raises:
  assumes "text \<noteq> []" "\<forall>x\<in>set text. is_py_space x"
  shows "route_message me message_handlers user text r s = (Inl IndexError, s)"
proof -
  from assms(2) have "dropWhile is_py_space text = []" by simp
  with assms(1) show ?thesis by (simp add: route_message_parse parse_command_def)
qed

theorem blank_text_raises_witness:
  "route_message ''strangebot'' message_handlers 7 ''  '' 0 init_state = (Inl IndexError, init_state)"
proof -
  have h: "''  '' \<noteq> []" "\<forall>x\<in>set ''  ''. is_py_space x" by code_simp+
  show ?thesis using blank_text_raises [OF h] .
qed

end
