(* ===== verification/Polling.thy ===== *)
theory Polling
  imports Command_Filter
begin

text \<open>
  The process of \<^verbatim>\<open>src/bot_aiogram.py\<close> as a whole: line 159,
  \<^verbatim>\<open>executor.start_polling(dp, skip_updates=True, on_startup=on_startup)\<close>. aiogram's
  executor (a library, not part of the repository) runs the startup hook, then takes the
  updates from the platform one by one and hands each to the dispatcher: a message to the
  command filter and the message handlers (\<open>Command_Filter\<close>), a button press to the
  callback handlers (\<open>Dispatch\<close>). With \<^verbatim>\<open>skip_updates=True\<close> the updates sent while
  the bot was down are dropped, so the run starts with the updates that arrive after
  startup. An exception of the startup hook propagates out of \<^verbatim>\<open>start_polling\<close>, and the
  process ends before any update is handled. \<open>me\<close> is the bot's user name.
\<close>

datatype update = Message_update user_id string | Callback_update user_id "string option"

definition process_update :: "string \<Rightarrow> hstate \<Rightarrow> update \<Rightarrow> nat \<Rightarrow> hstate" where
  "process_update me s upd r =
     (case upd of
        Message_update user text \<Rightarrow> message_step me s user text r
      | Callback_update user d \<Rightarrow> bot_step s (Callback user d) r)"

fun polling :: "string \<Rightarrow> hstate \<Rightarrow> (update \<times> nat) list \<Rightarrow> hstate" where
  "polling me s [] = s"
| "polling me s ((upd, r) # ups) = polling me (process_update me s upd r) ups"

definition start_polling :: "string \<Rightarrow> hstate \<Rightarrow> (update \<times> nat) list \<Rightarrow> py_error + hstate" where
  "start_polling me s ups =
     (case on_startup s of
        (Inl e, s') \<Rightarrow> Inl e
      | (Inr _, s') \<Rightarrow> Inr (polling me s' ups))"

subsection \<open>Properties of the whole process\<close>

text \<open>C19 (error): when the platform times out on the first description request at
  startup, \<^verbatim>\<open>start_polling\<close> ends with the exception and no update is handled; an API
  error there is logged and polling starts from the same session store.\<close>

theorem startup_timeout_stops_polling:
  assumes "outcomes s = Some e # os"
  shows "(e = TimeoutError \<longrightarrow> start_polling me s ups = Inl (Gateway TimeoutError)) \<and>
         (e = TelegramAPIError \<longrightarrow>
            (\<exists>s'. start_polling me s ups = Inr (polling me s' ups) \<and> user_state s' = user_state s))"
  using assms
  by (cases e) (auto simp: start_polling_def on_startup_def set_bot_texts_def catchE_def bindE_def
      await_call_outcome log_append_def)

theorem startup_timeout_stops_polling_witness:
  "start_polling ''strangebot'' (init_hstate\<lparr>outcomes := [Some TimeoutError]\<rparr>)
     [(Message_update 7 ''/play'', 1)] = Inl (Gateway TimeoutError) \<and>
   (\<exists>s'. start_polling ''strangebot'' (init_hstate\<lparr>outcomes := [Some TelegramAPIError]\<rparr>)
            [(Message_update 7 ''/play'', 1)] = Inr (polling ''strangebot'' s' [(Message_update 7 ''/play'', 1)]) \<and>
          user_state s' = user_state (init_hstate\<lparr>outcomes := [Some TelegramAPIError]\<rparr>))"
proof -
  have t: "outcomes (init_hstate\<lparr>outcomes := [Some TimeoutError]\<rparr>) = Some TimeoutError # []"
    and a: "outcomes (init_hstate\<lparr>outcomes := [Some TelegramAPIError]\<rparr>) = Some TelegramAPIError # []"
    by simp_all
  show ?thesis
    using startup_timeout_stops_polling [OF t, of "''strangebot''" "[(Message_update 7 ''/play'', 1)]"]
          startup_timeout_stops_polling [OF a, of "''strangebot''" "[(Message_update 7 ''/play'', 1)]"]
    by simp
qed

end
