(* ===== verification/Module_Init.thy ===== *)
theory Module_Init
  imports Polling
begin

text \<open>
  The module-level code of \<^verbatim>\<open>src/bot_aiogram.py\<close> that runs before polling (lines
  15--25) and the script as a whole. \<^verbatim>\<open>load_dotenv()\<close> (python-dotenv) sets the
  variables of a \<^verbatim>\<open>.env\<close> file that the environment does not already set; only
  \<^verbatim>\<open>BOT_TOKEN\<close> matters, so the environment's value and the file's are options.
  Line 18 reads the token with its placeholder default and line 19 warns about the
  placeholder (\<open>bot_token\<close>, \<open>token_warning\<close> of \<open>Handlers\<close>). Line 24,
  \<^verbatim>\<open>Bot(token=BOT_TOKEN)\<close>, runs aiogram's \<^verbatim>\<open>check_token\<close> (aiogram 2, outside
  the repository): a token with whitespace, or not of the form \<open>digits:rest\<close>, raises
  \<^verbatim>\<open>ValidationError\<close>, which ends the script. \<^verbatim>\<open>logging.basicConfig\<close> and
  \<^verbatim>\<open>Dispatcher(bot)\<close> change nothing the model observes. \<open>run_script\<close> is the whole
  program: the module code, then \<^verbatim>\<open>executor.start_polling\<close> from the empty store of
  line 34 with the log written so far.
\<close>

definition load_dotenv :: "string option \<Rightarrow> string option \<Rightarrow> string option" where
  "load_dotenv env dotenv = (case env of Some t \<Rightarrow> Some t | None \<Rightarrow> dotenv)"

text \<open>\<^verbatim>\<open>str.isdigit()\<close>: non-empty and all digits.\<close>

definition py_isdigit :: "string \<Rightarrow> bool" where
  "py_isdigit s \<longleftrightarrow> s \<noteq> [] \<and> list_all is_digit s"

definition check_token :: "string \<Rightarrow> py_error + unit" where
  "check_token token =
     (if list_ex is_py_space token then Inl ValidationError
      else
        (let parts = py_partition CHR '':'' token;
             left = fst parts; sep = fst (snd parts); right = snd (snd parts)
         in if sep = [] \<or> \<not> py_isdigit left \<or> right = [] then Inl ValidationError else Inr ()))"

text \<open>Lines 15--25: the warnings logged and the token of the created bot, or the exception
  that ends the module.\<close>

definition module_init :: "string option \<Rightarrow> string option \<Rightarrow> log_entry list \<times> (py_error + string)" where
  "module_init env dotenv =
     (let BOT_TOKEN = bot_token (load_dotenv env dotenv);
          logs = token_warning (load_dotenv env dotenv)
      in (logs, case check_token BOT_TOKEN of Inl e \<Rightarrow> Inl e | Inr _ \<Rightarrow> Inr BOT_TOKEN))"

definition run_script ::
  "string option \<Rightarrow> string option \<Rightarrow> string \<Rightarrow> (update \<times> nat) list \<Rightarrow> log_entry list \<times> (py_error + hstate)" where
  "run_script env dotenv me ups =
     (case module_init env dotenv of
        (logs, Inl e) \<Rightarrow> (logs, Inl e)
      | (logs, Inr _) \<Rightarrow> (logs, start_polling me (init_hstate\<lparr>log := logs\<rparr>) ups))"

subsection \<open>Lemmas\<close>

lemma placeholder_invalid: "check_token TOKEN_PLACEHOLDER = Inl ValidationError"
  by code_simp

lemma check_token_valid:
  assumes "py_isdigit digits" "rest \<noteq> []" "\<not> list_ex is_py_space rest"
  shows "check_token (digits @ CHR '':'' # rest) = Inr ()"
proof -
  have d: "list_all is_digit digits" using assms(1) by (simp add: py_isdigit_def)
  then have "CHR '':'' \<notin> set digits" "\<not> list_ex is_py_space digits"
    by (auto simp: list_all_iff list_ex_iff is_digit_def digit_not_special)
  moreover have "\<not> is_py_space CHR '':''" by (simp add: is_py_space_def)
  ultimately show ?thesis using assms
    by (simp add: check_token_def py_partition_first Let_def)
qed

subsection \<open>Properties of the script\<close>

text \<open>C23 (error): when neither the environment nor a \<^verbatim>\<open>.env\<close> file sets
  \<^verbatim>\<open>BOT_TOKEN\<close>, or either sets it to the placeholder, the script logs its warning and
  then \<^verbatim>\<open>Bot(token=BOT_TOKEN)\<close> raises \<^verbatim>\<open>ValidationError\<close>: the process stops before
  polling, where the comment of line 20 and spec sections 6 and 7 say it keeps running.\<close>

theorem placeholder_token_stops_script:
  assumes "bot_token (load_dotenv env dotenv) = TOKEN_PLACEHOLDER"
  shows "run_script env dotenv me ups = (token_warning (load_dotenv env dotenv), Inl ValidationError) \<and>
         token_warning (load_dotenv env dotenv) \<noteq> []"
  using assms placeholder_invalid
  by (simp add: run_script_def module_init_def token_warning_def)

theorem placeholder_token_stops_script_witness:
  "bot_token (load_dotenv None None) = TOKEN_PLACEHOLDER \<and>
   run_script None None ''strangebot'' [] = (token_warning None, Inl ValidationError)"
proof -
  have h: "bot_token (load_dotenv None None) = TOKEN_PLACEHOLDER"
    by (simp add: load_dotenv_def bot_token_def)
  show ?thesis using placeholder_token_stops_script [OF h, of "''strangebot''" "[]"] h
    by (simp add: load_dotenv_def)
qed

text \<open>C24 (functional): with a token of the form \<open>digits:rest\<close> and no whitespace in
  the environment, whatever the \<^verbatim>\<open>.env\<close> file says, no warning is logged and the script
  polls with the empty store.\<close>

theorem wellformed_token_polls:
  assumes "py_isdigit digits" "rest \<noteq> []" "\<not> list_ex is_py_space rest"
  shows "run_script (Some (digits @ CHR '':'' # rest)) dotenv me ups =
           ([], start_polling me init_hstate ups)"
proof -
  have "digits @ CHR '':'' # rest \<noteq> TOKEN_PLACEHOLDER"
    by (auto simp: TOKEN_PLACEHOLDER_def append_eq_Cons_conv Cons_eq_append_conv)
  then show ?thesis
    using check_token_valid [OF assms]
    by (simp add: run_script_def module_init_def load_dotenv_def bot_token_def token_warning_def
        init_hstate_def)
qed

theorem wellformed_token_polls_witness:
  "run_script (Some ''123456:ABC-def'') (Some ''your_bot_token_here'') ''strangebot'' [] =
     ([], start_polling ''strangebot'' init_hstate [])"
proof -
  have h: "py_isdigit ''123456''" "''ABC-def'' \<noteq> []" "\<not> list_ex is_py_space ''ABC-def''"
    by code_simp+
  show ?thesis using wellformed_token_polls [OF h, of "Some ''your_bot_token_here''" "''strangebot''" "[]"]
    by simp
qed

end
