(* ===== verification/Coroutine.thy ===== *)
theory Coroutine
  imports Gateway
begin

text \<open>
  Coroutines split at their \<^verbatim>\<open>await\<close> points. A handler of
  \<^verbatim>\<open>src/bot_aiogram.py\<close> is an \<^verbatim>\<open>async def\<close>; between two awaits it runs
  without interruption, and at an \<^verbatim>\<open>await\<close> on the platform the event loop may run
  other handlers. \<open>'a co\<close> makes these points visible: \<open>Call req k\<close> is an awaited
  platform request whose continuation \<open>k\<close> receives the outcome (\<open>None\<close> for
  success), \<open>Get\<close> and \<open>Put\<close> read and write the session store, \<open>Log\<close> appends to
  the log, \<open>Ret\<close> ends the coroutine with a value or an exception. The combinators
  (\<open>bindC\<close>, \<open>catchC\<close>, \<open>awaitC\<close>, \<open>modifyC\<close>, ...) mirror those of the
  exception-state monad, and \<open>run_co\<close> runs a coroutine to its end as the sequential
  semantics does; the lemmas \<open>run_co_*\<close> show that \<open>run_co\<close> maps each combinator
  to its monadic counterpart. \<open>advance\<close> runs a coroutine up to its next await (one
  uninterrupted slice); \<open>store_free\<close> says that a coroutine never touches the store,
  \<open>co_atomic\<close> that it touches the store only before its first await.
\<close>

datatype 'a co =
    Ret "py_error + 'a"
  | Call outbound "io_error option \<Rightarrow> 'a co"
  | Get "store \<Rightarrow> 'a co"
  | Put store "'a co"
  | Log log_entry "'a co"

primrec bindC :: "'a co \<Rightarrow> ('a \<Rightarrow> 'b co) \<Rightarrow> 'b co" where
  "bindC (Ret r) f = (case r of Inl e \<Rightarrow> Ret (Inl e) | Inr x \<Rightarrow> f x)"
| "bindC (Call req k) f = Call req (\<lambda>res. bindC (k res) f)"
| "bindC (Get k) f = Get (\<lambda>us. bindC (k us) f)"
| "bindC (Put us c) f = Put us (bindC c f)"
| "bindC (Log l c) f = Log l (bindC c f)"

primrec catchC :: "'a co \<Rightarrow> (py_error \<Rightarrow> bool) \<Rightarrow> (py_error \<Rightarrow> 'a co) \<Rightarrow> 'a co" where
  "catchC (Ret r) p h = (case r of Inl e \<Rightarrow> if p e then h e else Ret (Inl e) | Inr x \<Rightarrow> Ret (Inr x))"
| "catchC (Call req k) p h = Call req (\<lambda>res. catchC (k res) p h)"
| "catchC (Get k) p h = Get (\<lambda>us. catchC (k us) p h)"
| "catchC (Put us c) p h = Put us (catchC c p h)"
| "catchC (Log l c) p h = Log l (catchC c p h)"

definition retC :: "'a \<Rightarrow> 'a co" where
  "retC x = Ret (Inr x)"

definition liftC :: "py_error + 'a \<Rightarrow> 'a co" where
  "liftC r = Ret r"

definition thenC :: "'a co \<Rightarrow> 'b co \<Rightarrow> 'b co" where
  "thenC c d = bindC c (\<lambda>_. d)"

definition awaitC :: "outbound \<Rightarrow> unit co" where
  "awaitC req = Call req (\<lambda>res. case res of None \<Rightarrow> Ret (Inr ()) | Some e \<Rightarrow> Ret (Inl (Gateway e)))"

definition getC :: "(store \<Rightarrow> 'a) \<Rightarrow> 'a co" where
  "getC f = Get (\<lambda>us. Ret (Inr (f us)))"

definition modifyC :: "(store \<Rightarrow> store) \<Rightarrow> unit co" where
  "modifyC f = Get (\<lambda>us. Put (f us) (Ret (Inr ())))"

definition logC :: "log_entry \<Rightarrow> unit co" where
  "logC l = Log l (Ret (Inr ()))"

text \<open>\<open>await_outcome req\<close>: the request and the platform's answer, as
  \<open>await_call\<close> has them, returned instead of raised.\<close>

definition await_outcome :: "outbound \<Rightarrow> (hstate, io_error option) exc" where
  "await_outcome req s =
     (let res = (case outcomes s of [] \<Rightarrow> None | r # _ \<Rightarrow> r)
      in (Inr res, s\<lparr>sent := sent s @ [(req, res)], outcomes := drop 1 (outcomes s)\<rparr>))"

primrec run_co :: "'a co \<Rightarrow> (hstate, 'a) exc" where
  "run_co (Ret r) = liftE r"
| "run_co (Call req k) = bindE (await_outcome req) (\<lambda>res. run_co (k res))"
| "run_co (Get k) = bindE (getsE user_state) (\<lambda>us. run_co (k us))"
| "run_co (Put us c) = thenE (modifyE (\<lambda>s. s\<lparr>user_state := us\<rparr>)) (run_co c)"
| "run_co (Log l c) = thenE (log_append l) (run_co c)"

text \<open>One uninterrupted slice: run until the next await or the end.\<close>

primrec advance :: "'a co \<Rightarrow> hstate \<Rightarrow> 'a co \<times> hstate" where
  "advance (Ret r) s = (Ret r, s)"
| "advance (Call req k) s = (Call req k, s)"
| "advance (Get k) s = advance (k (user_state s)) s"
| "advance (Put us c) s = advance c (s\<lparr>user_state := us\<rparr>)"
| "advance (Log l c) s = advance c (s\<lparr>log := log s @ [l]\<rparr>)"

primrec store_free :: "'a co \<Rightarrow> bool" where
  "store_free (Ret r) = True"
| "store_free (Call req k) = (\<forall>res. store_free (k res))"
| "store_free (Get k) = False"
| "store_free (Put us c) = False"
| "store_free (Log l c) = store_free c"

primrec co_atomic :: "'a co \<Rightarrow> bool" where
  "co_atomic (Ret r) = True"
| "co_atomic (Call req k) = (\<forall>res. store_free (k res))"
| "co_atomic (Get k) = (\<forall>us. co_atomic (k us))"
| "co_atomic (Put us c) = co_atomic c"
| "co_atomic (Log l c) = co_atomic c"

text \<open>\<open>calls_left c\<close>: the most platform calls \<open>c\<close> still awaits, over every answer
  of the platform. It is meant for coroutines past their first slice, which never read the
  store (\<open>store_free\<close>); a \<open>Get\<close> counts as an end.\<close>

primrec calls_left :: "'a co \<Rightarrow> nat" where
  "calls_left (Ret r) = 0"
| "calls_left (Call req k) =
     Suc (max (calls_left (k None))
              (max (calls_left (k (Some TelegramAPIError))) (calls_left (k (Some TimeoutError)))))"
| "calls_left (Get k) = 0"
| "calls_left (Put us c) = calls_left c"
| "calls_left (Log l c) = calls_left c"

subsection \<open>The sequential run maps each combinator to the monad\<close>

lemma await_call_by_outcome:
  "await_call req =
     bindE (await_outcome req) (\<lambda>res. case res of None \<Rightarrow> returnE () | Some e \<Rightarrow> raiseE (Gateway e))"
  by (rule ext) (simp add: await_call_def await_outcome_def bindE_def Let_def split: option.splits)

text \<open>A computation that never raises commutes with an enclosing handler.\<close>

lemma catchE_bindE_ok:
  assumes "\<And>s. isl (fst (m s)) = False"
  shows "catchE (bindE m f) p h = bindE m (\<lambda>x. catchE (f x) p h)"
proof (rule ext)
  fix s
  from assms [of s] obtain x s' where "m s = (Inr x, s')"
    by (cases "m s"; cases "fst (m s)") auto
  then show "catchE (bindE m f) p h s = bindE m (\<lambda>x. catchE (f x) p h) s"
    by (simp add: bindE_def catchE_def)
qed

lemma await_outcome_ok [simp]: "isl (fst (await_outcome req s)) = False"
  by (simp add: await_outcome_def Let_def)

lemma getsE_ok [simp]: "isl (fst (getsE f s)) = False"
  by simp

lemma modifyE_ok [simp]: "isl (fst (modifyE f s)) = False"
  by simp

lemma log_append_ok [simp]: "isl (fst (log_append l s)) = False"
  by (simp add: log_append_def)

lemma run_co_bindC [co_simps]: "run_co (bindC c f) = bindE (run_co c) (\<lambda>x. run_co (f x))"
proof (induction c)
  case (Ret r)
  then show ?case by (cases r) (simp_all add: fun_eq_iff bindE_def liftE_def)
next
  case (Call req k)
  then show ?case by (simp add: rangeI)
next
  case (Get k)
  then show ?case by (simp add: rangeI fun_eq_iff bindE_def)
next
  case (Put us c)
  then show ?case by (simp add: fun_eq_iff bindE_def)
next
  case (Log l c)
  then show ?case by simp
qed

lemma run_co_catchC [co_simps]: "run_co (catchC c p h) = catchE (run_co c) p (\<lambda>e. run_co (h e))"
proof (induction c)
  case (Ret r)
  then show ?case by (cases r) (simp_all add: fun_eq_iff catchE_def)
next
  case (Call req k)
  then show ?case by (simp add: rangeI catchE_bindE_ok)
next
  case (Get k)
  then show ?case by (simp add: rangeI fun_eq_iff catchE_def)
next
  case (Put us c)
  then show ?case by (simp add: fun_eq_iff catchE_def)
next
  case (Log l c)
  then show ?case by (simp add: catchE_bindE_ok)
qed

lemma run_co_retC [co_simps]: "run_co (retC x) = returnE x"
  by (simp add: retC_def)

lemma run_co_liftC [co_simps]: "run_co (liftC r) = liftE r"
  by (simp add: liftC_def)

lemma run_co_thenC [co_simps]: "run_co (thenC c d) = thenE (run_co c) (run_co d)"
  by (simp add: thenC_def run_co_bindC)

lemma run_co_awaitC [co_simps]: "run_co (awaitC req) = await_call req"
  by (rule ext) (simp add: awaitC_def await_call_by_outcome bindE_def await_outcome_def Let_def
      split: option.splits)

lemma run_co_getC [co_simps]: "run_co (getC f) = getsE (\<lambda>s. f (user_state s))"
  by (rule ext) (simp add: getC_def)

lemma run_co_modifyC [co_simps]:
  "run_co (modifyC f) = modifyE (\<lambda>s. s\<lparr>user_state := f (user_state s)\<rparr>)"
  by (rule ext) (simp add: modifyC_def)

lemma run_co_logC [co_simps]: "run_co (logC l) = log_append l"
  by (rule ext) (simp add: logC_def bindE_def log_append_def)

subsection \<open>Coroutines that never touch the store\<close>

lemma store_free_bindC [intro]:
  "store_free c \<Longrightarrow> (\<And>x. store_free (f x)) \<Longrightarrow> store_free (bindC c f)"
proof (induction c)
  case (Ret r)
  then show ?case by (cases r) simp_all
qed (simp_all add: rangeI)

lemma store_free_catchC [intro]:
  "store_free c \<Longrightarrow> (\<And>e. store_free (h e)) \<Longrightarrow> store_free (catchC c p h)"
proof (induction c)
  case (Ret r)
  then show ?case by (cases r) simp_all
qed (simp_all add: rangeI)

lemma store_free_retC [simp]: "store_free (retC x)"
  by (simp add: retC_def)

lemma store_free_liftC [simp]: "store_free (liftC r)"
  by (simp add: liftC_def)

lemma store_free_thenC [intro]: "store_free c \<Longrightarrow> store_free d \<Longrightarrow> store_free (thenC c d)"
  by (simp add: thenC_def store_free_bindC)

lemma store_free_awaitC [simp]: "store_free (awaitC req)"
  by (simp add: awaitC_def split: option.splits)

lemma store_free_logC [simp]: "store_free (logC l)"
  by (simp add: logC_def)

lemma co_atomic_store_free: "store_free c \<Longrightarrow> co_atomic c"
  by (induction c) (simp_all add: rangeI)

lemma io_only_await_outcome [io_only_intros]: "io_only (await_outcome req)"
  by (simp add: io_only_def await_outcome_def Let_def)

lemma store_free_io_only: "store_free c \<Longrightarrow> io_only (run_co c)"
proof (induction c)
  case (Ret r)
  show ?case by (simp add: io_only_liftE)
next
  case (Call req k)
  then have "io_only (run_co (k res))" for res by (simp add: rangeI)
  then show ?case by (simp add: io_only_bindE io_only_await_outcome)
next
  case (Log l c)
  then show ?case by (simp add: io_only_bindE io_only_log_append)
qed simp_all

subsection \<open>Slices\<close>

text \<open>A slice reads the store and nothing else of the state it starts from.\<close>

lemma advance_indep:
  "user_state s = user_state t \<Longrightarrow>
   fst (advance c s) = fst (advance c t) \<and> user_state (snd (advance c s)) = user_state (snd (advance c t))"
proof (induction c arbitrary: s t)
  case (Ret r)
  then show ?case by simp
next
  case (Call req k)
  then show ?case by simp
next
  case (Get k)
  have "advance (Get k) s = advance (k (user_state s)) s" "advance (Get k) t = advance (k (user_state s)) t"
    by (simp_all only: advance.simps Get.prems)
  with Get.IH [OF rangeI Get.prems] show ?case by (simp only:)
next
  case (Put us c)
  then show ?case using Put.IH [of "s\<lparr>user_state := us\<rparr>" "t\<lparr>user_state := us\<rparr>"] by simp
next
  case (Log l c)
  have "user_state (s\<lparr>log := log s @ [l]\<rparr>) = user_state (t\<lparr>log := log t @ [l]\<rparr>)"
    using Log.prems by simp
  from Log.IH [OF this] show ?case by (simp only: advance.simps)
qed

text \<open>A slice ends at an await or at the end of the coroutine.\<close>

lemma advance_stops: "case fst (advance c s) of Ret _ \<Rightarrow> True | Call _ _ \<Rightarrow> True | _ \<Rightarrow> False"
  by (induction c arbitrary: s) (simp_all add: rangeI)

lemma advance_store_free:
  "store_free c \<Longrightarrow>
   store_free (fst (advance c s)) \<and> user_state (snd (advance c s)) = user_state s"
  by (induction c arbitrary: s) (simp_all add: rangeI)

lemma advance_co_atomic: "co_atomic c \<Longrightarrow> store_free (fst (advance c s))"
  by (induction c arbitrary: s) (simp_all add: rangeI)

text \<open>For a coroutine that touches the store only before its first await, the first
  slice has the store effect of the whole run.\<close>

lemma run_co_co_atomic:
  "co_atomic c \<Longrightarrow> user_state (snd (run_co c s)) = user_state (snd (advance c s))"
proof (induction c arbitrary: s)
  case (Call req k)
  then have "store_free (Call req k)" by simp
  then have "user_state (snd (run_co (Call req k) s)) = user_state s"
    by (rule io_only_apply [OF store_free_io_only])
  then show ?case by simp
qed (simp_all add: rangeI log_append_def liftE_def)

subsection \<open>Atomicity of the combinators\<close>

lemma bindC_retC [simp]: "bindC (retC x) f = f x"
  by (simp add: retC_def)

lemma bindC_assoc [simp]: "bindC (bindC c f) g = bindC c (\<lambda>x. bindC (f x) g)"
proof (induction c)
  case (Ret r)
  then show ?case by (cases r) simp_all
qed simp_all

lemma co_atomic_thenC_modifyC [simp]: "co_atomic (thenC (modifyC f) c) = co_atomic c"
  by (simp add: thenC_def modifyC_def)

lemma co_atomic_bindC_modifyC [simp]: "co_atomic (bindC (modifyC f) g) = co_atomic (g ())"
  by (simp add: modifyC_def)

lemma bindC_thenC_modifyC [simp]: "bindC (thenC (modifyC f) c) g = thenC (modifyC f) (bindC c g)"
  by (simp add: thenC_def modifyC_def)

lemma co_atomic_bindC_getC [simp]: "co_atomic (bindC (getC f) g) = (\<forall>us. co_atomic (g (f us)))"
  by (simp add: getC_def)

lemma co_atomic_bindC_liftC [simp]:
  "co_atomic (bindC (liftC r) g) = (case r of Inl e \<Rightarrow> True | Inr x \<Rightarrow> co_atomic (g x))"
  by (simp add: liftC_def split: sum.splits)

lemma co_atomic_bindC_store_free:
  "store_free c \<Longrightarrow> (\<And>x. store_free (f x)) \<Longrightarrow> co_atomic (bindC c f)"
  by (simp add: co_atomic_store_free store_free_bindC)

lemma calls_left_Call_less: "calls_left (k res) < calls_left (Call req k)"
proof (cases res)
  case (Some e)
  then show ?thesis by (cases e) simp_all
qed simp

lemma advance_calls_left: "store_free c \<Longrightarrow> calls_left (fst (advance c s)) = calls_left c"
  by (induction c arbitrary: s) simp_all

lemma advance_thenC_modifyC [simp]:
  "advance (thenC (modifyC f) c) s = advance c (s\<lparr>user_state := f (user_state s)\<rparr>)"
  by (simp add: thenC_def modifyC_def)

lemma advance_bindC_getC [simp]: "advance (bindC (getC f) g) s = advance (g (f (user_state s))) s"
  by (simp add: getC_def)

lemma advance_bindC_liftC [simp]:
  "advance (bindC (liftC r) g) s = (case r of Inl e \<Rightarrow> (Ret (Inl e), s) | Inr x \<Rightarrow> advance (g x) s)"
  by (simp add: liftC_def split: sum.splits)

lemma advance_awaitC [simp]: "advance (awaitC req) s = (awaitC req, s)"
  by (simp add: awaitC_def)

lemma calls_left_awaitC [simp]: "calls_left (awaitC req) = 1"
  by (simp add: awaitC_def)

lemma advance_bindC_modifyC [simp]:
  "advance (bindC (modifyC f) g) s = advance (g ()) (s\<lparr>user_state := f (user_state s)\<rparr>)"
  by (simp add: modifyC_def)

lemma advance_retC [simp]: "advance (retC x) s = (retC x, s)"
  by (simp add: retC_def)

lemma calls_left_retC [simp]: "calls_left (retC x) = 0"
  by (simp add: retC_def)

text \<open>A run is its first slice followed by the run of the rest.\<close>

lemma run_co_advance: "run_co c s = run_co (fst (advance c s)) (snd (advance c s))"
  by (induction c arbitrary: s) (simp_all add: log_append_def)

lemma advance_sent: "sent (snd (advance c s)) = sent s"
  by (induction c arbitrary: s) simp_all

lemma run_co_sent_store_free:
  "store_free c \<Longrightarrow> length (sent (snd (run_co c s))) \<le> length (sent s) + calls_left c"
proof (induction c arbitrary: s)
  case (Call req k)
  let ?res = "case outcomes s of [] \<Rightarrow> None | r # _ \<Rightarrow> r"
  let ?s' = "s\<lparr>sent := sent s @ [(req, ?res)], outcomes := drop 1 (outcomes s)\<rparr>"
  have sf: "store_free (k ?res)" using Call.prems by simp
  have "length (sent (snd (run_co (k ?res) ?s'))) \<le> length (sent ?s') + calls_left (k ?res)"
    by (rule Call.IH [OF rangeI sf])
  moreover have "calls_left (k ?res) < calls_left (Call req k)"
    by (rule calls_left_Call_less)
  ultimately show ?case
    by (simp add: await_outcome_def bindE_def Let_def)
next
  case (Log l c)
  then show ?case using Log.IH [of "s\<lparr>log := log s @ [l]\<rparr>"] by (simp add: log_append_def)
qed (simp_all add: liftE_def)

end
