(* ===== verification/Interleaving.thy ===== *)
theory Interleaving
  imports Dispatch Coroutine
begin

text \<open>
  The handlers of \<^verbatim>\<open>src/bot_aiogram.py\<close> as coroutines split at their awaits, and
  the event loop that interleaves them (spec section 5). Each \<open>*_co\<close> definition is
  the handler of the same name in \<open>Handlers\<close>, statement by statement, written with the
  coroutine combinators; \<open>run_co\<close> of it is the handler, and \<open>bot_step_run_co\<close>
  shows that a whole bot step is the sequential run of the dispatcher's coroutine.
  The event loop holds a pool of tasks: an update that has arrived and whose handler has
  not run yet (\<open>Pending\<close>), or a handler suspended at an await or finished
  (\<open>Running\<close>). A scheduler step starts a pending task and runs it to its first await,
  or resumes a suspended one with the platform's answer and runs it to its next await.
  The environment chooses the arrivals, the random draws, the order of the steps and the
  platform's answers.
\<close>

subsection \<open>The handlers as coroutines\<close>

definition cmd_start_co :: "unit co" where
  "cmd_start_co = awaitC (Reply welcome_txt None)"

definition cmd_play_co :: "user_id \<Rightarrow> nat \<Rightarrow> unit co" where
  "cmd_play_co user qidx_r =
     thenC (modifyC (\<lambda>us. us(user \<mapsto> \<lparr>score = 0, qidx = Some qidx_r\<rparr>)))
      (bindC (liftC (py_getitem QUESTIONS (int qidx_r))) (\<lambda>qu.
       bindC (liftC (question_kb (int qidx_r))) (\<lambda>kb.
       awaitC (Reply (JOYSTICK @ CHR '' '' # q qu) (Some kb)))))"

definition cmd_score_co :: "user_id \<Rightarrow> unit co" where
  "cmd_score_co user =
     bindC (getC (\<lambda>us. dict_get us user \<lparr>score = 0, qidx = None\<rparr>)) (\<lambda>st.
     awaitC (Reply (TROPHY @ '' Your score: '' @ str_of_int (score st)) None))"

definition cmd_quit_co :: "user_id \<Rightarrow> unit co" where
  "cmd_quit_co user =
     bindC (getC (\<lambda>us. user \<in> dom us)) (\<lambda>present.
       if present then
         thenC (modifyC (\<lambda>us. dict_del us user))
           (awaitC (Reply (CANDLE @ '' You have left the game. Come back if you dare.'') None))
       else awaitC (Reply ''No active game. Use /play to begin.'' None))"

definition answer_feedback_co :: "string \<Rightarrow> nat \<Rightarrow> unit co" where
  "answer_feedback_co text next_qidx =
     catchC
       (thenC (awaitC (Answer_callback text True))
         (bindC (liftC (py_getitem QUESTIONS (int next_qidx))) (\<lambda>nq.
          bindC (liftC (question_kb (int next_qidx))) (\<lambda>kb.
          awaitC (Edit_text (next_txt text nq) (Some kb))))))
       (\<lambda>_. True)
       (\<lambda>_. bindC (liftC (py_getitem QUESTIONS (int next_qidx))) (\<lambda>nq.
            bindC (liftC (question_kb (int next_qidx))) (\<lambda>kb.
            awaitC (Reply (next_txt text nq) (Some kb)))))"

definition process_answer_co :: "user_id \<Rightarrow> string \<Rightarrow> nat \<Rightarrow> unit co" where
  "process_answer_co user data next_qidx =
     bindC (liftC (decode_answer data)) (\<lambda>(qidx_v, choice).
     bindC (liftC (py_getitem QUESTIONS qidx_v)) (\<lambda>qu.
     thenC (modifyC (\<lambda>us. fst (setdefault us user \<lparr>score = 0, qidx = None\<rparr>)))
     (let correct = (choice = answer_index qu) in
      bindC
        (if correct then
           thenC (modifyC (\<lambda>us. update_session us user (\<lambda>st. st\<lparr>score := score st + 10\<rparr>)))
             (retC (CHECK_MARK @ '' Correct! +10 points.''))
         else
           thenC (modifyC (\<lambda>us. update_session us user (\<lambda>st. st\<lparr>score := score st - 5\<rparr>)))
             (retC (CROSS_MARK @ '' Wrong. -5 points. Hint: '' @ hint qu)))
        (\<lambda>text.
         thenC (modifyC (\<lambda>us. update_session us user (\<lambda>st. st\<lparr>qidx := Some next_qidx\<rparr>)))
           (answer_feedback_co text next_qidx)))))"

definition process_quit_co :: "user_id \<Rightarrow> unit co" where
  "process_quit_co user =
     thenC (bindC (getC (\<lambda>us. user \<in> dom us)) (\<lambda>present.
              if present then modifyC (\<lambda>us. dict_del us user) else retC ()))
      (thenC (awaitC (Answer_callback ''Game ended. Goodbye.'' True))
        (awaitC (Edit_text (CANDLE @ '' Game ended. Use /play to start again.'') None)))"

definition process_hint_co :: "string \<Rightarrow> unit co" where
  "process_hint_co data =
     bindC (liftC (decode_hint data)) (\<lambda>qidx_v.
     bindC (liftC (py_getitem QUESTIONS qidx_v)) (\<lambda>qu.
     awaitC (Answer_callback (BULB @ '' Hint: '' @ hint qu) True)))"

definition dispatch_co :: "event \<Rightarrow> nat \<Rightarrow> unit co" where
  "dispatch_co ev r =
     (case ev of
        Command user c \<Rightarrow>
          if c = ''start'' \<or> c = ''help'' then cmd_start_co
          else if c = ''play'' then cmd_play_co user r
          else if c = ''score'' then cmd_score_co user
          else if c = ''quit'' then cmd_quit_co user
          else retC ()
      | Callback user d \<Rightarrow>
          (case d of
             None \<Rightarrow> retC ()
           | Some data \<Rightarrow>
               if data \<noteq> [] \<and> starts_with data ''answer|'' then process_answer_co user data r
               else if data = ''quit'' then process_quit_co user
               else if data \<noteq> [] \<and> starts_with data ''hint|'' then process_hint_co data
               else retC ()))"

subsection \<open>The event loop\<close>

datatype task = Pending event nat | Running "unit co"

text \<open>The first slice of the handler of an event, and the slice after an await that
  the platform answered with \<open>res\<close>.\<close>

definition start_slice :: "event \<Rightarrow> nat \<Rightarrow> hstate \<Rightarrow> unit co \<times> hstate" where
  "start_slice ev r s = advance (dispatch_co ev r) s"

definition resume_slice ::
  "outbound \<Rightarrow> (io_error option \<Rightarrow> unit co) \<Rightarrow> io_error option \<Rightarrow> hstate \<Rightarrow> unit co \<times> hstate" where
  "resume_slice req k res s = advance (k res) (s\<lparr>sent := sent s @ [(req, res)]\<rparr>)"

text \<open>One step of the event loop: start a pending handler (the step reports its event
  and random draw) or resume a suspended one with the platform's answer \<open>res\<close>.\<close>

inductive sched_step :: "task list \<Rightarrow> hstate \<Rightarrow> (event \<times> nat) list \<Rightarrow> task list \<Rightarrow> hstate \<Rightarrow> bool" where
  start: "i < length P \<Longrightarrow> P ! i = Pending ev r \<Longrightarrow> start_slice ev r s = (c, s') \<Longrightarrow>
          sched_step P s [(ev, r)] (P[i := Running c]) s'"
| resume: "i < length P \<Longrightarrow> P ! i = Running (Call req k) \<Longrightarrow> resume_slice req k res s = (c, s') \<Longrightarrow>
           sched_step P s [] (P[i := Running c]) s'"

text \<open>\<open>interleaved s0 P s L\<close>: from the state \<open>s0\<close>, the event loop can reach the
  pool \<open>P\<close> and the state \<open>s\<close>, having started the handlers of \<open>L\<close> in this order;
  updates arrive at any time.\<close>

inductive interleaved :: "hstate \<Rightarrow> task list \<Rightarrow> hstate \<Rightarrow> (event \<times> nat) list \<Rightarrow> bool"
  for s0 :: hstate where
  init: "interleaved s0 [] s0 []"
| arrive: "interleaved s0 P s L \<Longrightarrow> r < length QUESTIONS \<Longrightarrow> interleaved s0 (P @ [Pending ev r]) s L"
| step: "interleaved s0 P s L \<Longrightarrow> sched_step P s started P' s' \<Longrightarrow>
         interleaved s0 P' s' (L @ started)"

fun task_ok :: "task \<Rightarrow> bool" where
  "task_ok (Pending ev r) = True"
| "task_ok (Running c) = store_free c"

subsection \<open>Equivalence with the sequential handlers\<close>

lemma cmd_play_co_equiv: "run_co (cmd_play_co user n) = cmd_play user n"
  by (simp add: cmd_play_co_def cmd_play_def co_simps)

lemma cmd_score_co_equiv: "run_co (cmd_score_co user) = cmd_score user"
  by (simp add: cmd_score_co_def cmd_score_def co_simps)

lemma cmd_quit_co_equiv: "run_co (cmd_quit_co user) = cmd_quit user"
  by (simp add: cmd_quit_co_def cmd_quit_def co_simps if_distrib [of run_co] cong: if_cong)

lemma answer_feedback_co_equiv: "run_co (answer_feedback_co text n) = answer_feedback text n"
  by (simp add: answer_feedback_co_def answer_feedback_def co_simps)

lemma process_answer_co_equiv: "run_co (process_answer_co user data n) = process_answer user data n"
  by (simp add: process_answer_co_def process_answer_def co_simps answer_feedback_co_equiv
      split_def Let_def if_distrib [of run_co] cong: if_cong)

lemma process_quit_co_equiv: "run_co (process_quit_co user) = process_quit user"
  by (rule ext) (simp add: process_quit_co_def process_quit_def co_simps if_distrib [of run_co]
      cong: if_cong)

lemma process_hint_co_equiv: "run_co (process_hint_co data) = process_hint data"
  by (simp add: process_hint_co_def process_hint_def co_simps)

text \<open>The whole of a bot step is the sequential run of the handler's coroutine.\<close>

lemma bot_step_run_co: "bot_step s ev r = snd (run_co (dispatch_co ev r) s)"
  by (simp add: bot_step_def dispatch_co_def dispatch_def cmd_start_co_def cmd_start_def co_simps
      cmd_play_co_equiv cmd_score_co_equiv cmd_quit_co_equiv process_answer_co_equiv
      process_quit_co_equiv process_hint_co_equiv if_distrib [of run_co] option.case_distrib [of run_co]
      cong: if_cong split: event.splits option.splits)

subsection \<open>Every handler touches the store before its first await only\<close>

lemma answer_feedback_co_store_free: "store_free (answer_feedback_co text n)"
  unfolding answer_feedback_co_def
  by (intro store_free_catchC store_free_thenC store_free_bindC store_free_awaitC store_free_liftC)

lemma process_answer_co_atomic: "co_atomic (process_answer_co user data n)"
  by (simp add: process_answer_co_def split_def Let_def co_atomic_store_free
      answer_feedback_co_store_free split: sum.splits)

lemma process_quit_co_atomic: "co_atomic (process_quit_co user)"
  by (simp add: process_quit_co_def thenC_def co_atomic_bindC_store_free store_free_bindC)

lemma dispatch_co_atomic: "co_atomic (dispatch_co ev r)"
  by (simp add: dispatch_co_def cmd_start_co_def cmd_play_co_def cmd_score_co_def cmd_quit_co_def
      process_answer_co_atomic process_quit_co_atomic process_hint_co_def co_atomic_store_free
      co_atomic_bindC_store_free store_free_bindC
      split: event.splits option.splits sum.splits)

subsection \<open>Every handler awaits at most three platform calls\<close>

lemma answer_feedback_co_calls: "calls_left (answer_feedback_co text n) \<le> 3"
  by (simp add: answer_feedback_co_def thenC_def awaitC_def liftC_def split: sum.splits)

lemma process_answer_co_calls: "calls_left (fst (advance (process_answer_co user data n) s)) \<le> 3"
  by (simp add: process_answer_co_def split_def Let_def answer_feedback_co_calls
      advance_calls_left answer_feedback_co_store_free split: sum.splits)

lemma process_quit_co_calls: "calls_left (fst (advance (process_quit_co user) s)) \<le> 3"
  by (simp add: process_quit_co_def thenC_def awaitC_def)

lemma start_slice_calls: "calls_left (fst (start_slice ev r s)) \<le> 3"
  by (simp add: start_slice_def dispatch_co_def cmd_start_co_def cmd_play_co_def cmd_score_co_def
      cmd_quit_co_def process_answer_co_calls process_quit_co_calls process_hint_co_def
      split: event.splits option.splits sum.splits)

subsection \<open>Linearizability of the store\<close>

lemma bot_run_append: "bot_run s (L @ L') = bot_run (bot_run s L) L'"
  by (induction L arbitrary: s) auto

lemma bot_step_start_slice: "user_state (bot_step s ev r) = user_state (snd (start_slice ev r s))"
  unfolding bot_step_run_co start_slice_def
  by (rule run_co_co_atomic [OF dispatch_co_atomic])

lemma sched_step_inv:
  assumes "sched_step P s started P' s'" "list_all task_ok P"
  shows "list_all task_ok P' \<and>
         (\<forall>t. user_state s = user_state t \<longrightarrow>
              user_state s' = user_state (bot_run t started))"
  using assms(1)
proof cases
  case (start i ev r c)
  have "store_free c"
    using advance_co_atomic [OF dispatch_co_atomic, of ev r s] start
    by (simp add: start_slice_def)
  moreover have "user_state s' = user_state (bot_step t ev r)" if "user_state s = user_state t" for t
    using advance_indep [OF that, of "dispatch_co ev r"] start
    by (simp add: bot_step_start_slice start_slice_def)
  ultimately show ?thesis using assms(2) start by (simp add: list_all_update_keep)
next
  case (resume i req k res c)
  then have "store_free (Call req k)"
    using assms(2) by (metis list_all_length task_ok.simps(2))
  then have "store_free (k res)" by simp
  with advance_store_free [of "k res" "s\<lparr>sent := sent s @ [(req, res)]\<rparr>"] resume
  have "store_free c" "user_state s' = user_state s"
    by (simp_all add: resume_slice_def)
  with assms(2) resume show ?thesis by (simp add: list_all_update_keep)
qed

lemma interleaved_inv:
  "interleaved s0 P s L \<Longrightarrow> list_all task_ok P \<and> user_state s = user_state (bot_run s0 L)"
proof (induction rule: interleaved.induct)
  case (step P s L started P' s')
  then show ?case using sched_step_inv [OF step.hyps(2)] by (simp add: bot_run_append)
qed simp_all

subsection \<open>Properties of the event loop\<close>

text \<open>C14 (safety): however the event loop interleaves the handlers at their awaits and
  whatever the platform answers, the session store is the one the sequential bot reaches by
  handling the started events one after another, in the order in which they started.\<close>

theorem interleaving_linearizable:
  assumes "interleaved s0 P s L"
  shows "user_state s = user_state (bot_run s0 L)"
  using interleaved_inv [OF assms] by simp

theorem interleaving_linearizable_witness:
  "interleaved init_state
     [Running (fst (start_slice (Command 7 ''play'') 1
                      (snd (start_slice (Callback 7 (Some ''answer|1|2'')) 0 init_state)))),
      Running (fst (start_slice (Callback 7 (Some ''answer|1|2'')) 0 init_state))]
     (snd (start_slice (Command 7 ''play'') 1
             (snd (start_slice (Callback 7 (Some ''answer|1|2'')) 0 init_state))))
     [(Callback 7 (Some ''answer|1|2''), 0), (Command 7 ''play'', 1)] \<and>
   user_state (snd (start_slice (Command 7 ''play'') 1
             (snd (start_slice (Callback 7 (Some ''answer|1|2'')) 0 init_state)))) 7 =
     Some \<lparr>score = 0, qidx = Some 1\<rparr>"
proof -
  let ?a = "Callback 7 (Some ''answer|1|2'')" and ?p = "Command 7 ''play''"
  let ?s1 = "snd (start_slice ?a 0 init_state)"
  have p1: "interleaved init_state [Pending ?p 1] init_state []"
    using interleaved.arrive [where P="[]" and L="[]" and r=1 and ev="?p", OF interleaved.init] by simp
  have p2: "interleaved init_state [Pending ?p 1, Pending ?a 0] init_state []"
    using interleaved.arrive [where r=0 and ev="?a", OF p1] by simp
  have "sched_step [Pending ?p 1, Pending ?a 0] init_state [(?a, 0)]
          [Pending ?p 1, Running (fst (start_slice ?a 0 init_state))] ?s1"
    using sched_step.start [where i=1 and P="[Pending ?p 1, Pending ?a 0]" and ev="?a" and r=0
        and s=init_state and c="fst (start_slice ?a 0 init_state)" and s'="?s1"] by simp
  with p2 have p3:
    "interleaved init_state [Pending ?p 1, Running (fst (start_slice ?a 0 init_state))] ?s1 [(?a, 0)]"
    using interleaved.step by fastforce
  have "sched_step [Pending ?p 1, Running (fst (start_slice ?a 0 init_state))] ?s1 [(?p, 1)]
          [Running (fst (start_slice ?p 1 ?s1)), Running (fst (start_slice ?a 0 init_state))]
          (snd (start_slice ?p 1 ?s1))"
    using sched_step.start [where i=0 and P="[Pending ?p 1, Running (fst (start_slice ?a 0 init_state))]"
        and ev="?p" and r=1 and s="?s1" and c="fst (start_slice ?p 1 ?s1)"
        and s'="snd (start_slice ?p 1 ?s1)"] by simp
  with p3 have p4: "interleaved init_state
     [Running (fst (start_slice ?p 1 ?s1)), Running (fst (start_slice ?a 0 init_state))]
     (snd (start_slice ?p 1 ?s1)) [(?a, 0), (?p, 1)]"
    using interleaved.step by fastforce
  have v: "user_state (bot_run init_state [(?a, 0), (?p, 1)]) 7 = Some \<lparr>score = 0, qidx = Some 1\<rparr>"
    by code_simp
  show ?thesis using p4 interleaving_linearizable [OF p4] v by simp
qed

text \<open>C15 (safety): every handler reads and writes the store in its first slice only, the
  code that runs before its first await: what is left of it after the slice never touches
  the store, and the slice leaves the store the whole handler leaves.\<close>

theorem handler_store_in_first_slice:
  "store_free (fst (start_slice ev r s)) \<and>
   user_state (bot_step s ev r) = user_state (snd (start_slice ev r s))"
  using advance_co_atomic [OF dispatch_co_atomic] bot_step_start_slice
  by (simp add: start_slice_def)

text \<open>C16 (bounds): handling one update sends at most three requests to the platform,
  whatever the platform answers.\<close>

theorem bot_step_sent_bound: "length (sent (bot_step s ev r)) \<le> length (sent s) + 3"
proof -
  let ?c = "fst (start_slice ev r s)" and ?s = "snd (start_slice ev r s)"
  have "bot_step s ev r = snd (run_co ?c ?s)"
    using run_co_advance [of "dispatch_co ev r" s] by (simp add: bot_step_run_co start_slice_def)
  moreover have "length (sent (snd (run_co ?c ?s))) \<le> length (sent ?s) + calls_left ?c"
    using run_co_sent_store_free [OF advance_co_atomic [OF dispatch_co_atomic]]
    by (simp add: start_slice_def)
  moreover have "sent ?s = sent s" by (simp add: start_slice_def advance_sent)
  ultimately show ?thesis using start_slice_calls [of ev r s] by simp
qed

end
