(* ===== verification/Spec2Isabelle.thy ===== *)
theory Spec2Isabelle
  imports Module_Init Interleaving
begin

text \<open>
  \<^bold>\<open>Strange Things Bot: a verification development of \<^verbatim>\<open>src/bot_aiogram.py\<close>.\<close>

  The program is one Python module, a Telegram quiz bot on aiogram 2. Its parts:
  \<^item> the Question Bank, the constant list \<^verbatim>\<open>QUESTIONS\<close> (lines 36--61) and the
    keyboard builder \<^verbatim>\<open>question_kb\<close> (63--70), which writes the callback payloads
    \<^verbatim>\<open>answer|qidx|i\<close>, \<^verbatim>\<open>hint|qidx\<close> and \<^verbatim>\<open>quit\<close> onto the buttons;
  \<^item> the Session Store, the global dictionary \<^verbatim>\<open>user_state\<close> (line 34) from a user id
    to \<^verbatim>\<open>{"score", "qidx"}\<close>;
  \<^item> the command handlers \<^verbatim>\<open>cmd_start\<close>, \<^verbatim>\<open>cmd_play\<close>, \<^verbatim>\<open>cmd_score\<close>,
    \<^verbatim>\<open>cmd_quit\<close> (72--105) and the callback handlers \<^verbatim>\<open>process_answer\<close>,
    \<^verbatim>\<open>process_quit\<close>, \<^verbatim>\<open>process_hint\<close> (107--144), which decode the payload,
    read and write the store and await calls to the platform;
  \<^item> the startup code: the \<^verbatim>\<open>BOT_TOKEN\<close> check (18--21), \<^verbatim>\<open>set_bot_texts\<close> and
    \<^verbatim>\<open>on_startup\<close> (146--156);
  \<^item> the Gateway Adapter, aiogram's dispatcher and the Telegram platform, outside the
    repository: it routes updates to the handlers and performs or fails their calls.

  Theories, in import order:
  \<^item> \<open>Prelude\<close>: the exceptions (\<open>py_error\<close>, \<open>io_error\<close>) and the exception-state
    monad (\<open>returnE\<close>, \<open>bindE\<close>, \<open>catchE\<close> for \<^verbatim>\<open>try/except\<close>, \<open>modifyE\<close>)
    in which every coroutine is written; an exception keeps the state changes made
    before it, as in Python.
  \<^item> \<open>Py_Builtins\<close>: \<^verbatim>\<open>str.split\<close>, \<^verbatim>\<open>str.startswith\<close>, \<^verbatim>\<open>int()\<close>,
    \<^verbatim>\<open>str()\<close> of integers, tuple unpacking and \<^verbatim>\<open>xs[i]\<close> with negative indices,
    with their round trips (\<open>int(str(n)) = n\<close>, split of a payload the f-strings
    wrote).
  \<^item> \<open>Question_Bank\<close>: the record \<open>question\<close>, \<open>QUESTIONS\<close>, \<open>question_kb\<close>
    (with \<open>choice_rows\<close> for its \<^verbatim>\<open>enumerate\<close> loop), the payload writers, and
    the bound on the size of every payload (1 to 64 bytes).
  \<^item> \<open>Session_Store\<close>: the record \<open>session\<close>, the dictionary operations the code
    uses (\<open>dict_get\<close>, \<open>setdefault\<close>, \<open>dict_del\<close>, \<open>update_session\<close> for a write
    through the reference \<^verbatim>\<open>setdefault\<close> returned).
  \<^item> \<open>Gateway\<close>: the outbound requests, the handler state \<open>hstate\<close> (store, requests
    sent with their outcomes, the platform's next answers, the log), \<open>await_call\<close>, and
    \<open>io_only\<close> with rules showing that a computation never touches the store.
  \<^item> \<open>Handlers\<close>: one definition per coroutine, statement by statement, the texts as
    UTF-8 bytes, the payload decoders of lines 109--110 and 141--142; lemmas on the store
    effect of every handler on every branch, the fallback of the answer flow, the quit
    asymmetry, the startup error handling and the token check.
  \<^item> \<open>Dispatch\<close>: aiogram's routing (\<open>dispatch\<close>, \<open>bot_step\<close>, \<open>bot_run\<close>), the
    reachable states (\<open>reachable\<close>, an inductive step relation in which the environment
    picks the event, the random draw and the platform's answers), the invariant
    \<open>sessions_ok\<close>, and the abstract score machine \<open>abs_step\<close> with the refinement
    of every bot step.
  \<^item> \<open>Coroutine\<close>: handlers as coroutines split at their awaits (\<open>'a co\<close>: \<open>Call\<close>
    for an awaited request, \<open>Get\<close>/\<open>Put\<close> for the store, \<open>Log\<close>, \<open>Ret\<close>), the
    combinators mirroring the monad, the sequential run \<open>run_co\<close>, and \<open>advance\<close>, the
    slice a task runs without interruption up to its next await.
  \<^item> \<open>Interleaving\<close>: every handler rewritten as a coroutine (\<open>*_co\<close>) and shown equal
    to the sequential one; the event loop of spec section 5 (\<open>sched_step\<close>,
    \<open>interleaved\<close>: updates arrive, a pending handler starts, a suspended one resumes with
    the platform's answer, in any order); the proof that each handler touches the store only
    before its first await, so every interleaving leaves the store of the sequential run in
    start order; and the bound of three requests per update.
  \<^item> \<open>Command_Filter\<close>: aiogram's \<^verbatim>\<open>Command\<close> filter (first word, \<^verbatim>\<open>/\<close>
    prefix, \<^verbatim>\<open>@\<close>mention, case folding) and the message handlers in registration order,
    shown to be one parse of the text followed by the command dispatch; a text of
    whitespace only makes the filter raise.
  \<^item> \<open>Polling\<close>: \<^verbatim>\<open>executor.start_polling\<close> of line 159: the startup hook, then the
    updates one by one; a startup exception ends the process.
  \<^item> \<open>Module_Init\<close>: the module-level code of lines 15--25 (\<^verbatim>\<open>load_dotenv\<close>, the
    token and its warning, aiogram's token check in \<^verbatim>\<open>Bot(token=...)\<close>) and the whole
    script \<open>run_script\<close>: module code, then polling.
  \<^item> this theory: properties that span the components: Python's negative indices in the
    answer flow, \<^verbatim>\<open>/score\<close> after \<^verbatim>\<open>/quit\<close>, the invariant that every reachable
    score is a multiple of 5 and the bound of \<open>-5 n\<close> to \<open>10 n\<close> on the scores after
    \<open>n\<close> updates, both carried by the abstract score machine (\<open>abs_step_keeps\<close>), and
    the routing of every button \<open>question_kb\<close> builds to the handler meant for it.

  Modelling choices. \<^verbatim>\<open>random.randrange(len(QUESTIONS))\<close> is the parameter
  \<open>r\<close>/\<open>n\<close> of the handler that draws it; its contract \<open>r < length QUESTIONS\<close> is a
  premise of \<open>reachable\<close> and of an arrival in \<open>interleaved\<close>. The platform's behaviour
  is the list \<open>outcomes\<close> of the state in the sequential model, and the answer chosen at each
  resumption in the interleaved one. Python integers are \<open>int\<close>; strings are byte lists;
  \<^verbatim>\<open>int()\<close>, \<^verbatim>\<open>str.split()\<close> and \<^verbatim>\<open>str.lower()\<close> are modelled on ASCII. No
  loop of the program needs fuel: the \<^verbatim>\<open>enumerate\<close> loop of \<^verbatim>\<open>question_kb\<close> is
  structural recursion, \<^verbatim>\<open>split()\<close> is a function with a length measure, the event loop
  is a run over a list of updates, and the interleaved model is an inductive relation over
  finite schedules.

  Not modelled: the network transport of the platform (HTTP requests behind each awaited call
  and behind \<^verbatim>\<open>getUpdates\<close>), aiogram's cached \<^verbatim>\<open>getMe\<close> call in the mention check,
  \<^verbatim>\<open>skip_updates\<close> itself (the dropped updates never reach the bot, so a run starts
  after them), the effect of \<^verbatim>\<open>logging.basicConfig\<close> on which log records are printed
  (the model keeps every record), the imports of lines 1--13, and non-ASCII digits, whitespace and letters in
  \<^verbatim>\<open>int()\<close>, \<^verbatim>\<open>split()\<close> and \<^verbatim>\<open>lower()\<close>. The startup hook runs before
  polling, never concurrently with handlers, so it has no coroutine form.
\<close>

subsection \<open>Scores over whole runs\<close>

text \<open>A property of scores that holds of 0 and passes from a score to the score plus 10
  and minus 5 is kept by every abstract step.\<close>

lemma abs_step_keeps:
  assumes "\<forall>v x. m v = Some x \<longrightarrow> P x" "P 0" "\<And>x. P x \<Longrightarrow> Q x" "Q 0"
    and "\<And>x. P x \<Longrightarrow> Q (x + 10)" "\<And>x. P x \<Longrightarrow> Q (x - 5)"
  shows "\<forall>v x. abs_step m u op v = Some x \<longrightarrow> Q x"
proof -
  have cur: "P (case m u of None \<Rightarrow> 0 | Some y \<Rightarrow> y)"
    using assms(1,2) by (simp split: option.splits)
  show ?thesis
    using assms(1,3,4) assms(5,6) [OF cur]
    by (cases op) (auto simp: abs_step_def)
qed

lemma reachable_scores_dvd5:
  "reachable s \<Longrightarrow> \<forall>v x. scores (user_state s) v = Some x \<longrightarrow> 5 dvd x"
proof (induction rule: reachable.induct)
  case (start s)
  then show ?case by (simp add: scores_def)
next
  case (step s r os ev)
  then have "\<forall>v x. scores (user_state (s\<lparr>outcomes := os\<rparr>)) v = Some x \<longrightarrow> 5 dvd x" by simp
  then show ?case
    unfolding bot_step_scores by (rule abs_step_keeps) auto
qed

lemma bot_run_scores_bound:
  "\<forall>v x. scores (user_state s) v = Some x \<longrightarrow> - 5 * int k \<le> x \<and> x \<le> 10 * int k \<Longrightarrow>
   \<forall>v x. scores (user_state (bot_run s evs)) v = Some x \<longrightarrow>
          - 5 * int (k + length evs) \<le> x \<and> x \<le> 10 * int (k + length evs)"
proof (induction evs arbitrary: s k)
  case (Cons e evs)
  obtain ev r where e: "e = (ev, r)" by (cases e)
  have "\<forall>v x. scores (user_state (bot_step s ev r)) v = Some x \<longrightarrow>
          - 5 * int (Suc k) \<le> x \<and> x \<le> 10 * int (Suc k)"
    unfolding bot_step_scores by (rule abs_step_keeps [OF Cons.prems]) auto
  from Cons.IH [OF this] show ?case by (simp add: e)
qed simp

lemma hint_data_routes:
  "\<not> starts_with (hint_data qi) ''answer|''" "hint_data qi \<noteq> ''quit''"
  "hint_data qi \<noteq> []" "starts_with (hint_data qi) ''hint|''"
  by (simp_all add: hint_data_def starts_with_def)

lemma quit_routes: "\<not> starts_with ''quit'' ''answer|''"
  by (simp add: starts_with_def)

text \<open>C8: Python's negative indices reach the bank: an answer payload whose question index
  is \<open>-k\<close>, for \<open>1 \<le> k \<le> 4\<close>, is graded against question \<open>4 - k\<close> and updates the score,
  where the spec expects out-of-range indices to be rejected.\<close>

theorem answer_negative_index:
  assumes "0 < k" "k \<le> length QUESTIONS"
  shows "user_state (bot_step s (Callback u (Some (answer_data (- int k) i))) n) =
           (user_state s)(u \<mapsto> \<lparr>score = cur_score (user_state s) u +
              (if int i = answer_index (QUESTIONS ! (length QUESTIONS - k)) then 10 else -5),
              qidx = Some n\<rparr>)"
  using assms answer_prefix_nonempty [OF answer_data_prefix]
  by (simp add: bot_step_def dispatch_def process_answer_store decode_answer_data py_getitem_neg)

theorem answer_negative_index_witness:
  "0 < (1::nat) \<and> 1 \<le> length QUESTIONS \<and>
   user_state (bot_step init_state (Callback 7 (Some (answer_data (- 1) 2))) 0) =
     [7 \<mapsto> \<lparr>score = 10, qidx = Some 0\<rparr>]"
proof -
  have h: "0 < (1::nat)" "1 \<le> length QUESTIONS" by simp_all
  show ?thesis using answer_negative_index [OF h, of init_state 7 2 0] h
    by (simp add: init_state_def cur_score_def dict_get_def QUESTIONS_def)
qed

text \<open>C12: after \<^verbatim>\<open>/quit\<close>, \<^verbatim>\<open>/score\<close> asks the platform to show the score 0, from any
  state and whatever the platform answered to the quit reply.\<close>

theorem score_after_quit:
  "fst (last (sent (bot_run s [(Command u ''quit'', r1), (Command u ''score'', r2)]))) =
     Reply (TROPHY @ '' Your score: 0'') None"
  by (simp add: bot_step_def dispatch_def cmd_score_def cmd_quit_store bindE_def await_call_def
        Let_def dict_get_def split: option.splits)

text \<open>C20 (invariant): in every reachable state every stored score is a multiple of 5:
  scores start at 0 and change by +10 and -5 only.\<close>

theorem reachable_score_multiple_of_5:
  assumes "reachable s" "user_state s u = Some st"
  shows "5 dvd score st"
  using reachable_scores_dvd5 [OF assms(1)] assms(2) by (auto simp: scores_def)

theorem reachable_score_multiple_of_5_witness:
  "reachable (bot_step ((bot_step (init_state\<lparr>outcomes := []\<rparr>) (Command 7 ''play'') 1)\<lparr>outcomes := []\<rparr>)
                (Callback 7 (Some ''answer|1|0'')) 2) \<and>
   user_state (bot_step ((bot_step (init_state\<lparr>outcomes := []\<rparr>) (Command 7 ''play'') 1)\<lparr>outcomes := []\<rparr>)
                (Callback 7 (Some ''answer|1|0'')) 2) 7 = Some \<lparr>score = - 5, qidx = Some 2\<rparr> \<and>
   5 dvd score \<lparr>score = - 5 :: int, qidx = Some (2::nat)\<rparr>"
proof -
  let ?s1 = "bot_step (init_state\<lparr>outcomes := []\<rparr>) (Command 7 ''play'') 1"
  let ?s2 = "bot_step (?s1\<lparr>outcomes := []\<rparr>) (Callback 7 (Some ''answer|1|0'')) 2"
  have r0: "reachable init_state" by (rule reachable.start) (simp add: init_state_def)
  have r1: "reachable ?s1" by (rule reachable.step [OF r0]) simp
  have r2: "reachable ?s2" by (rule reachable.step [OF r1]) simp
  have v: "user_state ?s2 7 = Some \<lparr>score = - 5, qidx = Some 2\<rparr>" by code_simp
  show ?thesis using r2 v reachable_score_multiple_of_5 [OF r2 v] by simp
qed

text \<open>C21 (bounds): after \<open>n\<close> updates from the initial state, every score lies between
  \<open>-5 n\<close> and \<open>10 n\<close>, whatever the events, draws and platform answers.\<close>

theorem bot_run_score_bounds:
  assumes "user_state (bot_run init_state evs) u = Some st"
  shows "- 5 * int (length evs) \<le> score st \<and> score st \<le> 10 * int (length evs)"
proof -
  have "\<forall>v x. scores (user_state (bot_run init_state evs)) v = Some x \<longrightarrow>
          - 5 * int (0 + length evs) \<le> x \<and> x \<le> 10 * int (0 + length evs)"
    by (rule bot_run_scores_bound) (simp add: scores_def init_state_def)
  from this [rule_format, of u "score st"] assms show ?thesis by (simp add: scores_def)
qed

theorem bot_run_score_bounds_witness:
  "user_state (bot_run init_state [(Command 7 ''play'', 1), (Callback 7 (Some ''answer|1|0''), 2)]) 7 =
     Some \<lparr>score = - 5, qidx = Some 2\<rparr> \<and>
   - 5 * int (length [(Command 7 ''play'', 1::nat), (Callback 7 (Some ''answer|1|0''), 2)]) \<le> - 5"
proof -
  have v: "user_state (bot_run init_state [(Command 7 ''play'', 1), (Callback 7 (Some ''answer|1|0''), 2)]) 7 =
     Some \<lparr>score = - 5, qidx = Some 2\<rparr>" by code_simp
  show ?thesis using bot_run_score_bounds [OF v] v by simp
qed

text \<open>C25 (safety): every button of the keyboard of a question reaches the handler meant
  for it: a choice button \<open>process_answer\<close> with the payload of its own index, the hint
  button \<open>process_hint\<close>, the quit button \<open>process_quit\<close>; no filter that comes
  earlier in registration order captures it and none is ignored.\<close>

theorem keyboard_buttons_route:
  assumes "n < length QUESTIONS" "question_kb (int n) = Inr kb" "row \<in> set kb" "b \<in> set row"
  shows "(\<exists>k < length (choices (QUESTIONS ! n)).
            callback_data b = answer_data (int n) k \<and>
            dispatch (Callback u (Some (callback_data b))) r = process_answer u (answer_data (int n) k) r) \<or>
         (callback_data b = hint_data (int n) \<and>
            dispatch (Callback u (Some (callback_data b))) r = process_hint (hint_data (int n))) \<or>
         (callback_data b = ''quit'' \<and> dispatch (Callback u (Some (callback_data b))) r = process_quit u)"
proof -
  from assms(1,2) have kb: "kb = map (\<lambda>(k, c). [InlineKeyboardButton c (answer_data (int n) k)])
      (zip [0..<length (choices (QUESTIONS ! n))] (choices (QUESTIONS ! n)))
      @ [[InlineKeyboardButton ''Get Hint'' (hint_data (int n))], [InlineKeyboardButton ''Quit Game'' ''quit'']]"
    by (simp add: question_kb_valid)
  from assms(3,4) kb consider
      (choice) k c where "(k, c) \<in> set (zip [0..<length (choices (QUESTIONS ! n))] (choices (QUESTIONS ! n)))"
        "b = InlineKeyboardButton c (answer_data (int n) k)"
    | (hint) "b = InlineKeyboardButton ''Get Hint'' (hint_data (int n))"
    | (quit) "b = InlineKeyboardButton ''Quit Game'' ''quit''"
    by auto
  then show ?thesis
  proof cases
    case (choice k c)
    then have k: "k < length (choices (QUESTIONS ! n))" by (auto dest: set_zip_leftD)
    have "dispatch (Callback u (Some (answer_data (int n) k))) r = process_answer u (answer_data (int n) k) r"
      using answer_prefix_nonempty [OF answer_data_prefix] by (simp add: dispatch_def)
    with choice k show ?thesis by auto
  next
    case hint
    then show ?thesis by (simp add: dispatch_def hint_data_routes)
  next
    case quit
    then show ?thesis by (simp add: dispatch_def quit_routes)
  qed
qed

theorem keyboard_buttons_route_witness:
  "question_kb (int 0) = Inr
     [[InlineKeyboardButton ''Ignore it'' ''answer|0|0''],
      [InlineKeyboardButton ''Tune to frequency 77.7'' ''answer|0|1''],
      [InlineKeyboardButton ''Smash the radio'' ''answer|0|2''],
      [InlineKeyboardButton ''Record it'' ''answer|0|3''],
      [InlineKeyboardButton ''Get Hint'' ''hint|0''], [InlineKeyboardButton ''Quit Game'' ''quit'']] \<and>
   dispatch (Callback 7 (Some ''quit'')) 0 = process_quit 7"
proof -
  let ?kb = "[[InlineKeyboardButton ''Ignore it'' ''answer|0|0''],
      [InlineKeyboardButton ''Tune to frequency 77.7'' ''answer|0|1''],
      [InlineKeyboardButton ''Smash the radio'' ''answer|0|2''],
      [InlineKeyboardButton ''Record it'' ''answer|0|3''],
      [InlineKeyboardButton ''Get Hint'' ''hint|0''], [InlineKeyboardButton ''Quit Game'' ''quit'']]"
  have h: "0 < length QUESTIONS" "question_kb (int 0) = Inr ?kb" by simp code_simp
  have r: "[InlineKeyboardButton ''Quit Game'' ''quit''] \<in> set ?kb"
    and b: "InlineKeyboardButton ''Quit Game'' ''quit'' \<in> set [InlineKeyboardButton ''Quit Game'' ''quit'']"
    by simp_all
  from keyboard_buttons_route [OF h r b, of 7 0] h show ?thesis
    by (auto simp: answer_data_def hint_data_def)
qed

end
